theory Spec2Isabelle
  imports Main
begin

section \<open>Python strings\<close>

text \<open>
  The source works on Python \<open>str\<close> values; they are modelled as \<open>string\<close> (ASCII text).
  \<open>truthy\<close> is the truth value Python gives to a value that is \<open>None\<close> or a string.
\<close>

definition truthy :: "string option \<Rightarrow> bool" where
  "truthy v = (case v of None \<Rightarrow> False | Some s \<Rightarrow> s \<noteq> [])"

definition is_space :: "char \<Rightarrow> bool" where
  "is_space c = (c \<in> set [CHR '' '', CHR 0x09, CHR 0x0A, CHR 0x0B, CHR 0x0C, CHR 0x0D,
                            CHR 0x1C, CHR 0x1D, CHR 0x1E, CHR 0x1F])"

definition strip :: "string \<Rightarrow> string" where
  "strip s = rev (dropWhile is_space (rev (dropWhile is_space s)))"

definition lower_char :: "char \<Rightarrow> char" where
  "lower_char c = (let n = (of_char c :: nat) in if 65 \<le> n \<and> n \<le> 90 then char_of (n + 32) else c)"

definition lower :: "string \<Rightarrow> string" where
  "lower s = map lower_char s"

fun starts_with :: "string \<Rightarrow> string \<Rightarrow> bool" where
  "starts_with s [] = True"
| "starts_with [] (p # ps) = False"
| "starts_with (c # cs) (p # ps) = (c = p \<and> starts_with cs ps)"

text \<open>\<open>contains s p\<close> is Python's \<open>p in s\<close> on strings.\<close>

fun contains :: "string \<Rightarrow> string \<Rightarrow> bool" where
  "contains [] p = (p = [])"
| "contains (c # cs) p = (starts_with (c # cs) p \<or> contains cs p)"

definition any_in :: "string list \<Rightarrow> string \<Rightarrow> bool" where
  "any_in terms s = list_ex (\<lambda>t. contains s t) terms"

definition py_str :: "string option \<Rightarrow> string" where
  "py_str v = (case v of None \<Rightarrow> ''None'' | Some s \<Rightarrow> s)"


section \<open>The streaming worker (core/chat\_worker.py)\<close>

subsection \<open>What the provider streams\<close>

text \<open>
  The stream items are duck-typed: \<open>run\<close> asks with \<open>hasattr\<close> whether an item (or an element
  of a tuple item) has \<open>choices\<close>, whether the first choice has \<open>delta\<close> and
  \<open>finish_reason\<close>, and whether the delta has \<open>content\<close>. \<open>Missing\<close> is an attribute the
  object does not have; an attribute that is there holds \<open>None\<close> or a string.
\<close>

datatype 'a attr = Missing | Has 'a

record delta =
  delta_truthy :: bool
  delta_content :: "string option attr"

record choice =
  choice_delta :: "delta attr"
  choice_finish_reason :: "string option attr"

datatype choices = ChoiceList "choice list" | NotAList bool

datatype part = WithChoices choices | NoChoices

datatype item = Single part | Tuple "part list"

text \<open>
  Iterating the response stream either yields the next item or raises; the end of the list
  is the end of the stream. An exception raised by \<open>completion\<close> itself, before the loop, is
  a stream whose first pull raises.
\<close>

datatype exn = ImportError string | OtherException string

datatype pull = Yield item | Throw exn

datatype signal = MessageReceived string | ErrorOccurred string | Finished string

subsection \<open>The loop body\<close>

fun find_choices :: "part list \<Rightarrow> choices option" where
  "find_choices [] = None"
| "find_choices (WithChoices c # ps) = Some c"
| "find_choices (NoChoices # ps) = find_choices ps"

fun processed_chunk :: "item \<Rightarrow> choices option" where
  "processed_chunk (Single (WithChoices c)) = Some c"
| "processed_chunk (Single NoChoices) = None"
| "processed_chunk (Tuple ps) = find_choices ps"

fun first_choice :: "choices option \<Rightarrow> choice option" where
  "first_choice None = None"
| "first_choice (Some (NotAList b)) = None"
| "first_choice (Some (ChoiceList [])) = None"
| "first_choice (Some (ChoiceList (c # cs))) = Some c"

definition content_to_emit :: "choice \<Rightarrow> string option" where
  "content_to_emit c =
     (case choice_delta c of
        Missing \<Rightarrow> None
      | Has d \<Rightarrow>
          if delta_truthy d
          then (case delta_content d of Missing \<Rightarrow> None | Has v \<Rightarrow> v)
          else None)"

definition current_chunk_finish_reason :: "choice \<Rightarrow> string option" where
  "current_chunk_finish_reason c =
     (case choice_finish_reason c of Missing \<Rightarrow> None | Has v \<Rightarrow> v)"

text \<open>
  The state of the loop: \<open>self.current_ai_message\<close>, \<open>finish_reason_overall\<close> and the
  signals emitted so far, oldest first.
\<close>

record loop_state =
  ls_message :: string
  ls_finish :: "string option"
  ls_emitted :: "signal list"

definition process_item :: "item \<Rightarrow> loop_state \<Rightarrow> loop_state" where
  "process_item it s =
     (case first_choice (processed_chunk it) of
        None \<Rightarrow> s
      | Some c \<Rightarrow>
          (let s1 = (if truthy (content_to_emit c)
                     then s\<lparr>ls_message := ls_message s @ the (content_to_emit c),
                            ls_emitted := ls_emitted s @ [MessageReceived (the (content_to_emit c))]\<rparr>
                     else s)
           in if truthy (current_chunk_finish_reason c)
              then s1\<lparr>ls_finish := current_chunk_finish_reason c\<rparr>
              else s1))"

datatype loop_exit = Exhausted | Stopped | Raised exn

text \<open>
  \<open>flag n\<close> is the value of \<open>self._should_stop\<close> that the \<open>n\<close>-th iteration reads, after
  the item was fetched: another thread sets it in \<open>stop_safely\<close>.
\<close>

fun run_loop :: "(nat \<Rightarrow> bool) \<Rightarrow> nat \<Rightarrow> pull list \<Rightarrow> loop_state \<Rightarrow> loop_state \<times> loop_exit" where
  "run_loop flag n [] s = (s, Exhausted)"
| "run_loop flag n (Throw e # rest) s = (s, Raised e)"
| "run_loop flag n (Yield it # rest) s =
     (if flag n then (s, Stopped) else run_loop flag (Suc n) rest (process_item it s))"

subsection \<open>The exception handlers\<close>

definition arrow :: string where
  "arrow = [CHR 0xE2, CHR 0x86, CHR 0x92]"

definition user_friendly_msg :: "string option \<Rightarrow> string \<Rightarrow> string" where
  "user_friendly_msg mdl e =
     (let error_str = lower e in
      if any_in [''bearer'', ''authentication'', ''unauthorized'', ''401''] error_str
      then ''API authentication failed. Please check your API key in Settings '' @ arrow @
           '' Preferences and ensure it's valid and has sufficient credits.''
      else if any_in [''quota'', ''billing'', ''insufficient'', ''exceeded''] error_str
      then ''You've exceeded your API quota or have insufficient credits. Please check your API account billing and usage.''
      else if any_in [''rate limit'', ''429'', ''too many requests''] error_str
      then ''You've hit the API rate limit. Please wait a moment before sending another message.''
      else if any_in [''model not found'', ''invalid model'', ''model unavailable''] error_str
      then ''The model '' @ [CHR 0x27] @ py_str mdl @ [CHR 0x27] @
           '' is not available or accessible with your API key. Try selecting a different model.''
      else if any_in [''connection'', ''network'', ''timeout'', ''dns'', ''unreachable''] error_str
      then ''Connection error. Please check your connection and API keys, then try again.''
      else if any_in [''context length'', ''token limit'', ''max tokens'', ''context_length_exceeded'']
                error_str
      then ''The conversation is too long for this model. Try starting a new chat.''
      else if any_in [''content policy'', ''safety'', ''filtered'', ''blocked''] error_str
      then ''Your message was blocked by content safety filters. Please try rephrasing your request.''
      else if any_in [''500'', ''502'', ''503'', ''504'', ''internal server'', ''bad gateway'',
                      ''service unavailable''] error_str
      then ''The AI service is temporarily unavailable. Please try again in a few moments.''
      else if contains error_str ''timeout''
      then ''The request timed out. The AI service might be experiencing high demand. Please try again.''
      else e)"

definition import_error_msg :: string where
  "import_error_msg =
     ''Required AI libraries are not installed. Please install LiteLLM: pip install litellm''"

subsection \<open>ChatWorker.run\<close>

definition initial_loop_state :: "string \<Rightarrow> loop_state" where
  "initial_loop_state acc = \<lparr>ls_message = acc, ls_finish = None, ls_emitted = []\<rparr>"

text \<open>
  \<open>run\<close> returns the worker's \<open>current_ai_message\<close> and the signals it emits, in order.
  \<open>acc\<close> is \<open>self.current_ai_message\<close> when the thread starts (the constructor sets it
  to the empty string) and \<open>mdl\<close> is \<open>self.model\<close>.
\<close>

definition run :: "(nat \<Rightarrow> bool) \<Rightarrow> string option \<Rightarrow> string \<Rightarrow> pull list \<Rightarrow> string \<times> signal list" where
  "run flag mdl acc stream =
     (case run_loop flag 0 stream (initial_loop_state acc) of
        (s, Raised (ImportError e)) \<Rightarrow>
          (ls_message s, ls_emitted s @ [ErrorOccurred import_error_msg, Finished ''error''])
      | (s, Raised (OtherException e)) \<Rightarrow>
          (ls_message s, ls_emitted s @ [ErrorOccurred (user_friendly_msg mdl e), Finished ''error''])
      | (s, _) \<Rightarrow>
          (ls_message s,
           ls_emitted s @ [Finished (if truthy (ls_finish s) then the (ls_finish s) else ''stop'')]))"


subsection \<open>What a stream item carries\<close>

text \<open>
  The text delta and the finish reason that the loop body extracts from one item: the
  content and the finish reason of the first choice, when they are there and true in
  Python's sense (neither \<open>None\<close> nor the empty string).
\<close>

definition item_delta :: "item \<Rightarrow> string option" where
  "item_delta it =
     (case first_choice (processed_chunk it) of
        None \<Rightarrow> None
      | Some c \<Rightarrow> if truthy (content_to_emit c) then content_to_emit c else None)"

definition item_finish :: "item \<Rightarrow> string option" where
  "item_finish it =
     (case first_choice (processed_chunk it) of
        None \<Rightarrow> None
      | Some c \<Rightarrow> if truthy (current_chunk_finish_reason c) then current_chunk_finish_reason c else None)"

definition deltas :: "item list \<Rightarrow> string list" where
  "deltas items = List.map_filter item_delta items"

definition finish_reasons :: "item list \<Rightarrow> string list" where
  "finish_reasons items = List.map_filter item_finish items"

definition last_finish :: "item list \<Rightarrow> string" where
  "last_finish items = (if finish_reasons items = [] then ''stop'' else last (finish_reasons items))"

text \<open>The loop state after the items were processed, in closed form.\<close>

definition after_items :: "loop_state \<Rightarrow> item list \<Rightarrow> loop_state" where
  "after_items s items =
     \<lparr>ls_message = ls_message s @ concat (deltas items),
      ls_finish = (if finish_reasons items = [] then ls_finish s else Some (last (finish_reasons items))),
      ls_emitted = ls_emitted s @ map MessageReceived (deltas items)\<rparr>"


section \<open>The chat tab (ui/chat\_tab.py)\<close>

subsection \<open>State\<close>

text \<open>
  An entry of \<open>conversation_history\<close> is a dict with the keys \<open>role\<close> and \<open>content\<close>;
  the entries the tab appends for the assistant also have \<open>model\<close> (which may hold
  \<open>None\<close>). Entries without a \<open>role\<close> key, which only a hand-written import file can
  hold, are outside this type.
\<close>

record message =
  role :: string
  content :: string
  model :: "string option attr"

text \<open>
  A \<open>ChatMessage\<close> widget (ui/chat\_message.py). \<open>wid\<close> stands for the identity of the
  Python object: the tab numbers the widgets it creates.
\<close>

record chat_message =
  wid :: nat
  is_user_message :: bool
  model_name :: "string option"
  raw_content :: string

text \<open>
  The items of \<open>chat_layout\<close>: the suggestions widget, the message widgets and the
  stretch that \<open>addStretch\<close> puts at the end.
\<close>

datatype layout_item = SuggestionsWidget | Widget chat_message | Stretch

text \<open>
  A \<open>QThread\<close> is running from \<open>start\<close> until \<open>run\<close> returns or \<open>terminate\<close> kills
  it.
\<close>

datatype thread_state = NotStarted | Running | Returned | Terminated

record worker =
  w_message :: string
  w_model :: "string option"
  w_conversation_history :: nat
  w_should_stop :: bool
  w_thread :: thread_state

text \<open>
  A widget that was taken out of the layout has been handed to \<open>deleteLater\<close> (in
  \<open>clear_chat\<close>, \<open>remove_messages_after_index\<close> and \<open>update_last_message\<close>), and a
  call on the deleted widget raises \<open>RuntimeError\<close>. The exception leaves the slot that
  made the call; \<open>raised\<close> records it, and the state stays as it was at that point.
\<close>

datatype slot_error = RuntimeError

text \<open>
  The tab. Python lists are objects that several names can refer to, so the history lists
  live in a store \<open>lists\<close> and \<open>conversation_history\<close> holds the address of one of them;
  a worker holds an address too. \<open>workers\<close> are the \<open>ChatWorker\<close> objects the tab has
  created, \<open>chat_worker\<close> the index of the one it refers to. \<open>errors_shown\<close> are the
  messages \<open>show_error\<close> has displayed. Costs, fonts, timestamps, scrolling, the status
  line and the enabling of the input widgets are left out: they do not touch the fields
  below. Of the cost block of \<open>handle_chat_finished\<close> the model keeps its condition and
  its look at the reply widget.
\<close>

record chat_tab =
  lists :: "nat \<Rightarrow> message list"
  next_list :: nat
  workers :: "worker list"
  conversation_history :: nat
  current_ai_message :: string
  chat_worker :: "nat option"
  current_model :: "string option"
  ai_message_widget :: "nat option"
  chat_layout :: "layout_item list"
  next_wid :: nat
  message_input :: string
  errors_shown :: "string list"
  raised :: "slot_error list"
  tab_index :: int

definition init_tab :: chat_tab where
  "init_tab =
     \<lparr>lists = (\<lambda>a. []), next_list = 1, workers = [], conversation_history = 0,
      current_ai_message = [], chat_worker = None, current_model = None,
      ai_message_widget = None, chat_layout = [SuggestionsWidget, Stretch], next_wid = 0,
      message_input = [], errors_shown = [], raised = [], tab_index = - 1\<rparr>"

definition history :: "chat_tab \<Rightarrow> message list" where
  "history st = lists st (conversation_history st)"

definition is_running :: "chat_tab \<Rightarrow> nat \<Rightarrow> bool" where
  "is_running st w = (w < length (workers st) \<and> w_thread (workers st ! w) = Running)"

definition running_workers :: "chat_tab \<Rightarrow> nat list" where
  "running_workers st = filter (is_running st) [0 ..< length (workers st)]"

subsection \<open>Stopping a worker\<close>

text \<open>
  \<open>ChatWorker.stop_safely\<close>: nothing when the thread is not running; otherwise it sets the
  flag and waits up to three seconds. \<open>graceful\<close> is the result of \<open>self.wait(3000)\<close>:
  true when \<open>run\<close> has returned in time, false when the thread had to be terminated. The
  Qt calls are taken not to raise, so the \<open>except\<close> branches around \<open>stop_safely\<close> are
  not modelled.
\<close>

definition stop_safely :: "bool \<Rightarrow> nat \<Rightarrow> chat_tab \<Rightarrow> chat_tab" where
  "stop_safely graceful w st =
     (if \<not> is_running st w then st
      else st\<lparr>workers := (workers st)
                [w := (workers st ! w)\<lparr>w_should_stop := True,
                                        w_thread := (if graceful then Returned else Terminated)\<rparr>]\<rparr>)"

definition terminate_worker :: "bool \<Rightarrow> chat_tab \<Rightarrow> chat_tab" where
  "terminate_worker graceful st =
     (case chat_worker st of
        None \<Rightarrow> st
      | Some w \<Rightarrow>
          if is_running st w then (stop_safely graceful w st)\<lparr>chat_worker := None\<rparr> else st)"

subsection \<open>Sending\<close>

text \<open>\<open>insertWidget(count() - 1, w)\<close>: the widget goes in front of the last item.\<close>

definition insert_widget :: "chat_message \<Rightarrow> layout_item list \<Rightarrow> layout_item list" where
  "insert_widget w l = take (length l - 1) l @ [Widget w] @ drop (length l - 1) l"

definition add_message :: "string \<Rightarrow> bool \<Rightarrow> string option \<Rightarrow> chat_tab \<Rightarrow> chat_tab" where
  "add_message text is_user mname st =
     st\<lparr>chat_layout :=
           insert_widget \<lparr>wid = next_wid st, is_user_message = is_user, model_name = mname,
                          raw_content = text\<rparr> (chat_layout st),
        next_wid := Suc (next_wid st)\<rparr>"

text \<open>
  \<open>message_sent.emit\<close> runs the main window's \<open>handle_message_sent\<close>, which sets the
  tab's model to the text of the model combo box unless that text is empty. \<open>combo\<close> is
  that text.
\<close>

definition handle_message_sent :: "string \<Rightarrow> chat_tab \<Rightarrow> chat_tab" where
  "handle_message_sent combo st = (if combo = [] then st else st\<lparr>current_model := Some combo\<rparr>)"

definition user_message :: "string \<Rightarrow> message" where
  "user_message text = \<lparr>role = ''user'', content = text, model = Missing\<rparr>"

definition send_message :: "string \<Rightarrow> bool \<Rightarrow> chat_tab \<Rightarrow> chat_tab" where
  "send_message combo graceful st0 =
     (let st1 = terminate_worker graceful st0;
          msg = strip (message_input st1)
      in if msg = [] then st1
         else if (case chat_worker st1 of None \<Rightarrow> False | Some w \<Rightarrow> is_running st1 w) then st1
         else
           (let st2 = handle_message_sent combo st1;
                st3 = add_message msg True None st2;
                st4 = st3\<lparr>message_input := []\<rparr>;
                w = \<lparr>w_message = msg, w_model = current_model st4,
                     w_conversation_history = conversation_history st4,
                     w_should_stop = False, w_thread = Running\<rparr>;
                st5 = st4\<lparr>workers := workers st4 @ [w],
                          chat_worker := Some (length (workers st4))\<rparr>;
                st6 = st5\<lparr>lists := (lists st5)
                            (conversation_history st5 :=
                               lists st5 (conversation_history st5) @ [user_message msg])\<rparr>
            in st6\<lparr>current_ai_message := [], ai_message_widget := None\<rparr>))"

text \<open>
  The \<open>messages\<close> argument that \<open>run\<close> of worker \<open>w\<close> builds when it executes in state
  \<open>st\<close>: the list its \<open>conversation_history\<close> refers to at that moment, followed by the
  user message.
\<close>

definition completion_messages :: "chat_tab \<Rightarrow> nat \<Rightarrow> message list" where
  "completion_messages st w =
     lists st (w_conversation_history (workers st ! w)) @ [user_message (w_message (workers st ! w))]"

subsection \<open>The slots of the worker's signals\<close>

definition update_content :: "nat \<Rightarrow> string \<Rightarrow> layout_item list \<Rightarrow> layout_item list" where
  "update_content i text l =
     map (\<lambda>it. case it of
                 Widget m \<Rightarrow> if wid m = i then Widget (m\<lparr>raw_content := text\<rparr>) else it
               | _ \<Rightarrow> it) l"

text \<open>
  The widget with identity \<open>i\<close> is in the layout; \<open>reply_widget_deleted\<close> says that the
  tab refers to a reply widget (\<open>ai_message_widget\<close>) that is not, and so was deleted.
\<close>

definition has_widget :: "nat \<Rightarrow> layout_item list \<Rightarrow> bool" where
  "has_widget i l = list_ex (\<lambda>it. case it of Widget m \<Rightarrow> wid m = i | _ \<Rightarrow> False) l"

definition reply_widget_deleted :: "chat_tab \<Rightarrow> bool" where
  "reply_widget_deleted st =
     (case ai_message_widget st of None \<Rightarrow> False | Some i \<Rightarrow> \<not> has_widget i (chat_layout st))"

text \<open>
  \<open>handle_ai_message_chunk\<close> extends the buffer first; \<open>update_content\<close> on a deleted
  widget then raises.
\<close>

definition handle_ai_message_chunk :: "string \<Rightarrow> chat_tab \<Rightarrow> chat_tab" where
  "handle_ai_message_chunk chunk st0 =
     (let st = st0\<lparr>current_ai_message := current_ai_message st0 @ chunk\<rparr>
      in case ai_message_widget st of
           None \<Rightarrow>
             (add_message (current_ai_message st) False (current_model st) st)
               \<lparr>ai_message_widget := Some (next_wid st)\<rparr>
         | Some i \<Rightarrow>
             if has_widget i (chat_layout st)
             then st\<lparr>chat_layout := update_content i (current_ai_message st) (chat_layout st)\<rparr>
             else st\<lparr>raised := raised st @ [RuntimeError]\<rparr>)"

definition length_warning :: string where
  "length_warning =
     ''Warning: The response may have been truncated due to reaching the maximum token limit. Increase your max tokens via Settings -> Preferences -> Chat -> Max Tokens. ''"

definition assistant_message :: "string \<Rightarrow> string option \<Rightarrow> message" where
  "assistant_message text mdl = \<lparr>role = ''assistant'', content = text, model = Has mdl\<rparr>"

text \<open>
  With a buffer that is not empty and a model set, \<open>handle_chat_finished\<close> looks at
  \<open>self.ai_message_widget\<close> to show the cost (line 323), before it appends to the history
  and before it releases the worker: on a deleted widget this raises, and neither happens.
  (\<open>cost_tracking_enabled\<close>, the other half of the condition of line 312, is set to
  \<open>True\<close> when the tab is built and never assigned again.)
\<close>

definition handle_chat_finished :: "string \<Rightarrow> bool \<Rightarrow> chat_tab \<Rightarrow> chat_tab" where
  "handle_chat_finished finish_reason graceful st0 =
     (if current_ai_message st0 \<noteq> [] \<and> truthy (current_model st0) \<and> reply_widget_deleted st0
      then st0\<lparr>raised := raised st0 @ [RuntimeError]\<rparr>
      else
        (let st1 =
               (if current_ai_message st0 \<noteq> []
                then
                  (let st = st0\<lparr>lists := (lists st0)
                                 (conversation_history st0 :=
                                    lists st0 (conversation_history st0) @
                                    [assistant_message (current_ai_message st0) (current_model st0)])\<rparr>
                   in if finish_reason = ''length''
                      then add_message length_warning False (Some ''System'') st
                      else st)
                else st0)
         in case chat_worker st1 of
              None \<Rightarrow> st1
            | Some w \<Rightarrow> (stop_safely graceful w st1)\<lparr>chat_worker := None\<rparr>))"

definition token_error_keywords :: "string list" where
  "token_error_keywords =
     [''maximum context length'', ''token limit'', ''max tokens'', ''context_length_exceeded'',
      ''finish_reason: length'']"

definition show_error :: "string \<Rightarrow> chat_tab \<Rightarrow> chat_tab" where
  "show_error text st = st\<lparr>errors_shown := errors_shown st @ [text]\<rparr>"

definition handle_error :: "string \<Rightarrow> bool \<Rightarrow> chat_tab \<Rightarrow> chat_tab" where
  "handle_error error_message graceful st =
     handle_chat_finished ''error'' graceful
       (if any_in token_error_keywords (lower error_message)
        then show_error
               (''Warning: The response may have been truncated due to token limits. '' @
                ''Consider increasing max_tokens in settings or shortening your prompt.'') st
        else show_error (''An error occurred: '' @ error_message) st)"

text \<open>
  The three signals of a worker are connected to the three slots when the worker is
  created, and nothing disconnects them. A signal reaches the tab together with the
  worker that emitted it; the slots do not look at the sender.
\<close>

fun deliver :: "bool \<Rightarrow> nat \<times> signal \<Rightarrow> chat_tab \<Rightarrow> chat_tab" where
  "deliver graceful (sender, MessageReceived chunk) st = handle_ai_message_chunk chunk st"
| "deliver graceful (sender, ErrorOccurred e) st = handle_error e graceful st"
| "deliver graceful (sender, Finished r) st = handle_chat_finished r graceful st"

definition deliver_all :: "bool \<Rightarrow> (nat \<times> signal) list \<Rightarrow> chat_tab \<Rightarrow> chat_tab" where
  "deliver_all graceful evs st = fold (deliver graceful) evs st"


text \<open>
  One session from start to end: the worker the tab refers to runs on \<open>stream\<close> (reading
  \<open>flag\<close> at each iteration) and the tab's slots receive its signals in the order of
  emission.
\<close>

definition run_session :: "(nat \<Rightarrow> bool) \<Rightarrow> pull list \<Rightarrow> bool \<Rightarrow> chat_tab \<Rightarrow> chat_tab" where
  "run_session flag stream graceful st =
     (case chat_worker st of
        None \<Rightarrow> st
      | Some w \<Rightarrow>
          deliver_all graceful
            (map (Pair w) (snd (run flag (w_model (workers st ! w)) [] stream))) st)"

subsection \<open>Edit and resend\<close>

fun index_of :: "layout_item \<Rightarrow> layout_item list \<Rightarrow> nat option" where
  "index_of x [] = None"
| "index_of x (y # ys) = (if y = x then Some 0 else map_option Suc (index_of x ys))"

definition is_chat_message :: "layout_item \<Rightarrow> bool" where
  "is_chat_message it = (case it of Widget m \<Rightarrow> True | _ \<Rightarrow> False)"

definition remove_messages_after_index :: "nat \<Rightarrow> bool \<Rightarrow> layout_item list \<Rightarrow> layout_item list" where
  "remove_messages_after_index index include_current l =
     (let start_index = (if include_current then index else index + 1)
      in take start_index l @
         filter (\<lambda>it. \<not> is_chat_message it) (take (length l - 1 - start_index) (drop start_index l)) @
         drop (max start_index (length l - 1)) l)"

text \<open>The first loop of \<open>update_conversation_history_to_index\<close>: user and AI widgets.\<close>

fun count_messages :: "layout_item list \<Rightarrow> nat \<Rightarrow> nat \<Rightarrow> nat \<times> nat" where
  "count_messages [] user_count ai_count = (user_count, ai_count)"
| "count_messages (Widget m # l) user_count ai_count =
     (if is_user_message m then count_messages l (Suc user_count) ai_count
      else count_messages l user_count (Suc ai_count))"
| "count_messages (SuggestionsWidget # l) user_count ai_count = count_messages l user_count ai_count"
| "count_messages (Stretch # l) user_count ai_count = count_messages l user_count ai_count"

text \<open>The second loop: the entries kept, until the first \<open>break\<close>.\<close>

fun trim_history :: "nat \<Rightarrow> nat \<Rightarrow> nat \<Rightarrow> nat \<Rightarrow> message list \<Rightarrow> message list" where
  "trim_history user_count ai_count current_user_count current_ai_count [] = []"
| "trim_history user_count ai_count current_user_count current_ai_count (msg # msgs) =
     (if role msg = ''user''
      then (if current_user_count < user_count
            then msg # trim_history user_count ai_count (Suc current_user_count) current_ai_count msgs
            else [])
      else if role msg = ''assistant''
      then (if current_ai_count < ai_count
            then msg # trim_history user_count ai_count current_user_count (Suc current_ai_count) msgs
            else [])
      else trim_history user_count ai_count current_user_count current_ai_count msgs)"

definition update_conversation_history_to_index :: "int \<Rightarrow> bool \<Rightarrow> chat_tab \<Rightarrow> chat_tab" where
  "update_conversation_history_to_index message_index exclude_current st =
     (let count_limit = (if exclude_current then message_index else message_index + 1);
          (user_count, ai_count) = count_messages (take (nat count_limit) (chat_layout st)) 0 0;
          new_history = trim_history user_count ai_count 0 0 (history st)
      in st\<lparr>lists := (lists st)(next_list st := new_history),
            conversation_history := next_list st,
            next_list := Suc (next_list st)\<rparr>)"

definition update_last_message :: "chat_message \<Rightarrow> string \<Rightarrow> string \<Rightarrow> bool \<Rightarrow> chat_tab \<Rightarrow> chat_tab" where
  "update_last_message message_widget text combo graceful st =
     (let st1 =
            (case index_of (Widget message_widget) (chat_layout st) of
               None \<Rightarrow> st
             | Some message_index \<Rightarrow>
                 update_conversation_history_to_index (int message_index - 1) False
                   (st\<lparr>chat_layout :=
                         remove1 (Widget message_widget)
                           (remove_messages_after_index message_index False (chat_layout st))\<rparr>));
          st2 = st1\<lparr>message_input := (if text \<noteq> [] then strip text else raw_content message_widget)\<rparr>
      in send_message combo graceful st2)"

definition handle_resend_request :: "chat_message \<Rightarrow> string \<Rightarrow> bool \<Rightarrow> chat_tab \<Rightarrow> chat_tab" where
  "handle_resend_request message_widget combo graceful st =
     update_last_message message_widget [] combo graceful st"

text \<open>
  \<open>dialog\<close> is what the edit dialog returns: \<open>Some text\<close> when the user accepts it with
  \<open>text\<close> in the editor, \<open>None\<close> when the user cancels it.
\<close>

definition handle_edit_request :: "chat_message \<Rightarrow> string option \<Rightarrow> string \<Rightarrow> bool \<Rightarrow> chat_tab \<Rightarrow> chat_tab" where
  "handle_edit_request message_widget dialog combo graceful st =
     (if (case chat_worker st of None \<Rightarrow> False | Some w \<Rightarrow> is_running st w) then st
      else case dialog of
             None \<Rightarrow> st
           | Some text \<Rightarrow>
               if strip text \<noteq> [] then update_last_message message_widget text combo graceful st
               else st)"

subsection \<open>Clearing and importing\<close>

definition clear_chat :: "chat_tab \<Rightarrow> chat_tab" where
  "clear_chat st =
     (let l = chat_layout st;
          l1 = (if length l > 2 then [hd l, last l] else l);
          l2 = (if SuggestionsWidget \<in> set l1 then l1 else SuggestionsWidget # l1)
      in st\<lparr>chat_layout := l2, lists := (lists st)(conversation_history st := [])\<rparr>)"

definition msg_model :: "message \<Rightarrow> string option" where
  "msg_model msg = (case model msg of Missing \<Rightarrow> None | Has v \<Rightarrow> v)"

fun load_widgets :: "message list \<Rightarrow> chat_tab \<Rightarrow> chat_tab" where
  "load_widgets [] st = st"
| "load_widgets (msg # msgs) st =
     (if content msg = [] then load_widgets msgs st
      else load_widgets msgs
             (add_message (content msg) (role msg = ''user'')
                (if role msg = ''user'' then None else msg_model msg) st))"

definition load_conversation_history :: "message list \<Rightarrow> chat_tab \<Rightarrow> chat_tab" where
  "load_conversation_history imported st0 =
     (let st1 = clear_chat st0;
          st2 = st1\<lparr>lists := (lists st1)(next_list st1 := imported),
                    conversation_history := next_list st1,
                    next_list := Suc (next_list st1)\<rparr>;
          st3 = load_widgets imported st2
      in case find (\<lambda>msg. role msg = ''assistant'' \<and> truthy (msg_model msg)) (rev imported) of
           None \<Rightarrow> st3
         | Some msg \<Rightarrow> st3\<lparr>current_model := msg_model msg\<rparr>)"


section \<open>The main window (ui/main\_window.py)\<close>

text \<open>
  The tabs, the titles shown in the sidebar list, the index of the current tab, and the
  tabs handed to \<open>deleteLater\<close>, oldest first.
\<close>

record chatbot_app =
  chat_tabs :: "chat_tab list"
  tab_list :: "string list"
  current_tab_index :: int
  deleted_later :: "chat_tab list"

definition create_new_chat_tab :: "string \<Rightarrow> chatbot_app \<Rightarrow> chatbot_app" where
  "create_new_chat_tab title app =
     app\<lparr>chat_tabs := chat_tabs app @ [init_tab\<lparr>tab_index := int (length (chat_tabs app))\<rparr>],
         tab_list := tab_list app @ [title],
         current_tab_index := int (length (chat_tabs app))\<rparr>"

definition init_app :: chatbot_app where
  "init_app =
     create_new_chat_tab ''New Chat''
       \<lparr>chat_tabs = [], tab_list = [], current_tab_index = - 1, deleted_later = []\<rparr>"

definition renumber :: "nat \<Rightarrow> chat_tab list \<Rightarrow> chat_tab list" where
  "renumber index tabs =
     map (\<lambda>(i, tab). if index \<le> i then tab\<lparr>tab_index := int i\<rparr> else tab) (enumerate 0 tabs)"

text \<open>
  \<open>confirm\<close> is the answer to the confirmation dialog. \<open>deleteLater\<close> of a tab is
  overridden to call \<open>terminate_worker\<close> once more. \<open>setCurrentRow\<close> runs
  \<open>switch_chat_tab\<close>, which sets \<open>current_tab_index\<close>.
\<close>

definition delete_chat_tab :: "int \<Rightarrow> bool \<Rightarrow> bool \<Rightarrow> chatbot_app \<Rightarrow> chatbot_app" where
  "delete_chat_tab index confirm graceful app =
     (if index < 0 \<or> index \<ge> int (length (chat_tabs app)) then app
      else if length (chat_tabs app) = 1 then app
      else if nat index \<ge> length (tab_list app) then app
      else if \<not> confirm then app
      else
        (let tab_to_delete = terminate_worker graceful (chat_tabs app ! nat index);
             tabs = take (nat index) (chat_tabs app) @ drop (Suc (nat index)) (chat_tabs app);
             titles = take (nat index) (tab_list app) @ drop (Suc (nat index)) (tab_list app);
             current =
               (if current_tab_index app = index then min index (int (length tabs) - 1)
                else if current_tab_index app > index then current_tab_index app - 1
                else current_tab_index app)
         in \<lparr>chat_tabs = renumber (nat index) tabs,
             tab_list = titles,
             current_tab_index = current,
             deleted_later = deleted_later app @ [terminate_worker graceful tab_to_delete]\<rparr>))"


section \<open>Example inputs\<close>

text \<open>A stream item of the usual shape: one choice with a delta and a finish reason.\<close>

definition text_chunk :: "string \<Rightarrow> string option \<Rightarrow> item" where
  "text_chunk t f =
     Single (WithChoices (ChoiceList
       [\<lparr>choice_delta = Has \<lparr>delta_truthy = True, delta_content = Has (Some t)\<rparr>,
         choice_finish_reason = Has f\<rparr>]))"


section \<open>Notions used in the properties\<close>

text \<open>Every running worker of the tab is the one the tab refers to.\<close>

definition single_flight :: "chat_tab \<Rightarrow> bool" where
  "single_flight st = (\<forall>w \<in> set (running_workers st). chat_worker st = Some w)"

definition user_or_assistant :: "message \<Rightarrow> bool" where
  "user_or_assistant msg = (role msg = ''user'' \<or> role msg = ''assistant'')"

text \<open>The operations on the main window that change the list of tabs.\<close>

datatype app_op = Create string | Delete int bool bool

fun apply_app_op :: "app_op \<Rightarrow> chatbot_app \<Rightarrow> chatbot_app" where
  "apply_app_op (Create title) app = create_new_chat_tab title app"
| "apply_app_op (Delete index confirm graceful) app = delete_chat_tab index confirm graceful app"

text \<open>Example states: a tab after one send, and after a second send while the first runs.\<close>

definition sent_once :: chat_tab where
  "sent_once = send_message ''gpt'' True (init_tab\<lparr>message_input := ''hi''\<rparr>)"

definition sent_twice :: chat_tab where
  "sent_twice = send_message ''gpt'' True (sent_once\<lparr>message_input := ''yo''\<rparr>)"

definition imported :: chat_tab where
  "imported =
     load_conversation_history
       [\<lparr>role = ''system'', content = ''be nice'', model = Missing\<rparr>,
        \<lparr>role = ''user'', content = ''hi'', model = Missing\<rparr>,
        \<lparr>role = ''assistant'', content = ''yo'', model = Has (Some ''gpt'')\<rparr>] init_tab"

text \<open>Example: a window with two tabs, the first of which is receiving a reply.\<close>

definition two_tabs :: chatbot_app where
  "two_tabs = create_new_chat_tab ''Second'' (init_app\<lparr>chat_tabs := [sent_once]\<rparr>)"

text \<open>
  What \<open>send_message\<close> does after its two early returns, as one update of the state
  that \<open>terminate_worker\<close> left; \<open>send_message_nonblank\<close> below proves the two equal.
\<close>

definition start_worker :: "string \<Rightarrow> string \<Rightarrow> chat_tab \<Rightarrow> chat_tab" where
  "start_worker combo msg st1 =
     st1\<lparr>current_model := (if combo = [] then current_model st1 else Some combo),
         chat_layout := insert_widget \<lparr>wid = next_wid st1, is_user_message = True, model_name = None,
                                        raw_content = msg\<rparr> (chat_layout st1),
         next_wid := Suc (next_wid st1),
         message_input := [],
         workers := workers st1 @
                    [\<lparr>w_message = msg,
                      w_model = (if combo = [] then current_model st1 else Some combo),
                      w_conversation_history = conversation_history st1,
                      w_should_stop = False, w_thread = Running\<rparr>],
         chat_worker := Some (length (workers st1)),
         lists := (lists st1)(conversation_history st1 :=
                     lists st1 (conversation_history st1) @ [user_message msg]),
         current_ai_message := [], ai_message_widget := None\<rparr>"


text \<open>The text that \<open>handle_error\<close> passes to \<open>show_error\<close>.\<close>

definition shown_error :: "string \<Rightarrow> string" where
  "shown_error error_message =
     (if any_in token_error_keywords (lower error_message)
      then ''Warning: The response may have been truncated due to token limits. '' @
           ''Consider increasing max_tokens in settings or shortening your prompt.''
      else ''An error occurred: '' @ error_message)"

text \<open>The text that the exception handlers of \<open>run\<close> emit with \<open>error_occurred\<close>.\<close>

definition worker_error :: "string option \<Rightarrow> exn \<Rightarrow> string" where
  "worker_error mdl e =
     (case e of ImportError t \<Rightarrow> import_error_msg | OtherException t \<Rightarrow> user_friendly_msg mdl t)"

text \<open>Example: the first session of \<open>sent_once\<close> fails after one chunk.\<close>

definition faulted :: chat_tab where
  "faulted =
     run_session (\<lambda>n. False)
       [Yield (text_chunk ''Hel'' None), Throw (OtherException ''rate limit reached'')] True sent_once"

text \<open>
  The roles of a history alternate, beginning with \<open>user\<close> when \<open>user_turn\<close> holds and
  with \<open>assistant\<close> otherwise.
\<close>

fun alternating :: "bool \<Rightarrow> message list \<Rightarrow> bool" where
  "alternating user_turn [] = True"
| "alternating user_turn (msg # msgs) =
     (role msg = (if user_turn then ''user'' else ''assistant'') \<and> alternating (\<not> user_turn) msgs)"

text \<open>
  A layout is balanced when every user widget has at least as many other message widgets
  as user widgets in front of it, and so has the end of the layout: each earlier user
  message has its reply on display. \<open>user_count\<close> and \<open>ai_count\<close> count the widgets
  passed so far, as the first loop of \<open>update_conversation_history_to_index\<close> does.
\<close>

fun balanced :: "nat \<Rightarrow> nat \<Rightarrow> layout_item list \<Rightarrow> bool" where
  "balanced user_count ai_count [] = (user_count \<le> ai_count)"
| "balanced user_count ai_count (Widget m # l) =
     (if is_user_message m then user_count \<le> ai_count \<and> balanced (Suc user_count) ai_count l
      else balanced user_count (Suc ai_count) l)"
| "balanced user_count ai_count (SuggestionsWidget # l) = balanced user_count ai_count l"
| "balanced user_count ai_count (Stretch # l) = balanced user_count ai_count l"

text \<open>
  The state of a tab between two operations when every reply so far has arrived in full:
  no session, a history of user and assistant entries in turn, and a balanced layout that
  ends with an item that is no message (the stretch).
\<close>

definition settled :: "chat_tab \<Rightarrow> bool" where
  "settled st =
     (chat_worker st = None \<and> alternating True (history st) \<and> even (length (history st)) \<and>
      chat_layout st \<noteq> [] \<and> \<not> is_chat_message (last (chat_layout st)) \<and>
      balanced 0 0 (chat_layout st))"

text \<open>
  The operations of the user on a tab, each with the stream the provider answers with if
  the operation starts a session; the session runs to its end before the next operation.
\<close>

datatype tab_op =
    Send string "pull list"
  | Edit chat_message "string option" "pull list"
  | Resend chat_message "pull list"

fun apply_tab_op :: "string \<Rightarrow> bool \<Rightarrow> tab_op \<Rightarrow> chat_tab \<Rightarrow> chat_tab" where
  "apply_tab_op combo graceful (Send text stream) st =
     run_session (\<lambda>n. False) stream graceful
       (send_message combo graceful (st\<lparr>message_input := text\<rparr>))"
| "apply_tab_op combo graceful (Edit message_widget dialog stream) st =
     run_session (\<lambda>n. False) stream graceful
       (handle_edit_request message_widget dialog combo graceful st)"
| "apply_tab_op combo graceful (Resend message_widget stream) st =
     run_session (\<lambda>n. False) stream graceful
       (handle_resend_request message_widget combo graceful st)"

text \<open>The items of a stream that never raises.\<close>

fun yields :: "pull list \<Rightarrow> item list option" where
  "yields [] = Some []"
| "yields (Yield it # rest) = map_option ((#) it) (yields rest)"
| "yields (Throw e # rest) = None"

definition good_stream :: "pull list \<Rightarrow> bool" where
  "good_stream stream =
     (case yields stream of None \<Rightarrow> False | Some items \<Rightarrow> concat (deltas items) \<noteq> [])"

text \<open>
  An operation whose stream never raises and carries some text; edit and resend come from
  a user widget (only those have the buttons).
\<close>

fun good_op :: "tab_op \<Rightarrow> bool" where
  "good_op (Send text stream) = good_stream stream"
| "good_op (Edit message_widget dialog stream) = (is_user_message message_widget \<and> good_stream stream)"
| "good_op (Resend message_widget stream) = (is_user_message message_widget \<and> good_stream stream)"

definition is_role :: "string \<Rightarrow> message \<Rightarrow> bool" where
  "is_role r msg = (role msg = r)"

text \<open>Example: two exchanges, the second reply cut off by the token limit.\<close>

definition replied :: chat_tab where
  "replied = apply_tab_op ''gpt'' True (Send ''hi'' [Yield (text_chunk ''Hello'' (Some ''stop''))]) init_tab"

definition replied_twice :: chat_tab where
  "replied_twice =
     apply_tab_op ''gpt'' True (Send ''more'' [Yield (text_chunk ''Sure'' (Some ''length''))]) replied"

definition second_user_widget :: chat_message where
  "second_user_widget = \<lparr>wid = 2, is_user_message = True, model_name = None, raw_content = ''more''\<rparr>"

text \<open>The part of \<open>settled\<close> that is about the layout.\<close>

definition layout_ok :: "layout_item list \<Rightarrow> bool" where
  "layout_ok l = (l \<noteq> [] \<and> \<not> is_chat_message (last l) \<and> balanced 0 0 l)"


text \<open>Example operations: two exchanges, then the second user message is edited.\<close>

definition three_ops :: "tab_op list" where
  "three_ops =
     [Send ''hi'' [Yield (text_chunk ''Hello'' (Some ''stop''))],
      Send ''more'' [Yield (text_chunk ''Sure'' (Some ''length''))],
      Edit second_user_widget (Some ''other'') [Yield (text_chunk ''Fine'' None)]]"

text \<open>Example operations: two sends whose streams end at once, with no text.\<close>

definition silent_ops :: "tab_op list" where
  "silent_ops = [Send ''a'' [], Send ''b'' []]"

text \<open>
  What the provider sends, read off the shape of an item alone, without the functions of
  the loop body. The chunk of an item is the item itself when it has \<open>choices\<close>, and for a
  tuple its first element that has \<open>choices\<close>. An item supplies a text delta when the
  choices of its chunk are a list that is not empty, the first choice has a delta that is
  true in Python's sense, and the delta has a content that is a string and not empty. It
  supplies a finish reason when the first choice has a \<open>finish_reason\<close> that is a string
  and not empty.
\<close>

definition chunk_of :: "item \<Rightarrow> choices option" where
  "chunk_of it =
     (case it of
        Single p \<Rightarrow> (case p of WithChoices c \<Rightarrow> Some c | NoChoices \<Rightarrow> None)
      | Tuple ps \<Rightarrow>
          (case List.find (\<lambda>p. p \<noteq> NoChoices) ps of
             Some (WithChoices c) \<Rightarrow> Some c
           | _ \<Rightarrow> None))"

definition text_delta :: "item \<Rightarrow> string option" where
  "text_delta it =
     (case chunk_of it of
        Some (ChoiceList (c # cs)) \<Rightarrow>
          (case choice_delta c of
             Has d \<Rightarrow>
               (case delta_content d of
                  Has (Some s) \<Rightarrow> if delta_truthy d \<and> s \<noteq> [] then Some s else None
                | _ \<Rightarrow> None)
           | Missing \<Rightarrow> None)
      | _ \<Rightarrow> None)"

definition supplied_finish_reason :: "item \<Rightarrow> string option" where
  "supplied_finish_reason it =
     (case chunk_of it of
        Some (ChoiceList (c # cs)) \<Rightarrow>
          (case choice_finish_reason c of
             Has (Some r) \<Rightarrow> if r \<noteq> [] then Some r else None
           | _ \<Rightarrow> None)
      | _ \<Rightarrow> None)"

definition text_deltas :: "item list \<Rightarrow> string list" where
  "text_deltas items = concat (map (\<lambda>it. case text_delta it of None \<Rightarrow> [] | Some d \<Rightarrow> [d]) items)"

text \<open>The last finish reason that an item of the stream supplied, or \<open>stop\<close>.\<close>

definition final_finish_reason :: "item list \<Rightarrow> string" where
  "final_finish_reason items =
     (case rev (concat (map (\<lambda>it. case supplied_finish_reason it of None \<Rightarrow> [] | Some r \<Rightarrow> [r]) items)) of
        [] \<Rightarrow> ''stop''
      | r # rs \<Rightarrow> r)"

text \<open>
  Example: a stream of five items. The second has no \<open>choices\<close>; the third is a tuple
  whose second element carries the chunk, with the finish reason \<open>stop\<close>; the fourth
  supplies the finish reason \<open>length\<close>; the last has an empty list of choices.
\<close>

definition example_items :: "item list" where
  "example_items =
     [text_chunk ''Hel'' None,
      Single NoChoices,
      Tuple [NoChoices,
             WithChoices (ChoiceList
               [\<lparr>choice_delta = Has \<lparr>delta_truthy = True, delta_content = Has (Some ''lo'')\<rparr>,
                 choice_finish_reason = Has (Some ''stop'')\<rparr>]),
             NoChoices],
      text_chunk '' world'' (Some ''length''),
      Single (WithChoices (ChoiceList []))]"

text \<open>
  \<open>handle_chat_finished\<close> raises in this state: there is text in the buffer, a model is
  set, and the reply widget has been deleted.
\<close>

definition finish_raises :: "chat_tab \<Rightarrow> bool" where
  "finish_raises st =
     (current_ai_message st \<noteq> [] \<and> truthy (current_model st) \<and> reply_widget_deleted st)"

text \<open>Example: the first chunk of the reply of \<open>sent_once\<close> has arrived.\<close>

definition streaming :: chat_tab where
  "streaming = handle_ai_message_chunk ''Hel'' sent_once"

text \<open>Example: the chat is cleared while the first reply of \<open>sent_once\<close> is arriving.\<close>

definition cleared_midway :: chat_tab where
  "cleared_midway = clear_chat (handle_ai_message_chunk ''A'' sent_once)"


section \<open>Properties of the worker\<close>

lemma item_finish_nonempty: "item_finish it = Some f \<Longrightarrow> f \<noteq> []"
  by (auto simp: item_finish_def truthy_def split: option.splits if_splits)

lemma process_item_closed:
  "process_item it s =
     \<lparr>ls_message = ls_message s @ (case item_delta it of None \<Rightarrow> [] | Some d \<Rightarrow> d),
      ls_finish = (case item_finish it of None \<Rightarrow> ls_finish s | Some f \<Rightarrow> Some f),
      ls_emitted = ls_emitted s @ (case item_delta it of None \<Rightarrow> [] | Some d \<Rightarrow> [MessageReceived d])\<rparr>"
  by (auto simp: process_item_def item_delta_def item_finish_def truthy_def Let_def
           split: option.splits)

lemma after_items_Nil: "after_items s [] = s"
  by (simp add: after_items_def deltas_def finish_reasons_def)

lemma after_items_Cons: "after_items s (it # items) = after_items (process_item it s) items"
  by (cases "item_delta it"; cases "item_finish it")
     (simp_all add: after_items_def process_item_closed deltas_def finish_reasons_def)

lemma run_loop_yields:
  "(\<forall>j < length items. \<not> flag (n + j)) \<Longrightarrow>
   run_loop flag n (map Yield items @ tail) s =
   run_loop flag (n + length items) tail (after_items s items)"
proof (induction items arbitrary: n s)
  case Nil
  then show ?case by (simp add: after_items_Nil)
next
  case (Cons it items)
  have "\<not> flag n" using Cons.prems by force
  moreover have "\<forall>j < length items. \<not> flag (Suc n + j)" using Cons.prems by force
  ultimately show ?case using Cons.IH[of "Suc n" "process_item it s"]
    by (simp add: after_items_Cons)
qed

lemma finish_reasons_nonempty: "f \<in> set (finish_reasons items) \<Longrightarrow> f \<noteq> []"
  by (induction items)
     (auto simp: finish_reasons_def split: option.splits dest: item_finish_nonempty)

lemma final_reason:
  "(if truthy (ls_finish (after_items (initial_loop_state acc) items))
    then the (ls_finish (after_items (initial_loop_state acc) items)) else ''stop'') = last_finish items"
proof (cases "finish_reasons items = []")
  case True
  then show ?thesis by (simp add: after_items_def initial_loop_state_def last_finish_def truthy_def)
next
  case False
  then have "last (finish_reasons items) \<noteq> []"
    using finish_reasons_nonempty[of "last (finish_reasons items)" items] by simp
  with False show ?thesis by (simp add: after_items_def last_finish_def truthy_def)
qed

lemma run_exhausted:
  "(\<forall>j < length items. \<not> flag j) \<Longrightarrow>
   run flag mdl acc (map Yield items) =
     (acc @ concat (deltas items), map MessageReceived (deltas items) @ [Finished (last_finish items)])"
  using run_loop_yields[of items flag 0 "[]" "initial_loop_state acc"] final_reason[of acc items]
  by (simp add: run_def) (simp add: after_items_def initial_loop_state_def)

lemma run_stopped:
  "(\<forall>j < length items. \<not> flag j) \<Longrightarrow> flag (length items) \<Longrightarrow>
   run flag mdl acc (map Yield items @ Yield it # rest) =
     (acc @ concat (deltas items), map MessageReceived (deltas items) @ [Finished (last_finish items)])"
  using run_loop_yields[of items flag 0 "Yield it # rest" "initial_loop_state acc"] final_reason[of acc items]
  by (simp add: run_def) (simp add: after_items_def initial_loop_state_def)

lemma process_item_ignored:
  "item_delta it = None \<Longrightarrow> item_finish it = None \<Longrightarrow> process_item it s = s"
  by (simp add: process_item_closed)

lemma item_delta_text_chunk [simp]: "item_delta (text_chunk t f) = (if t = [] then None else Some t)"
  by (simp add: item_delta_def text_chunk_def content_to_emit_def truthy_def)

lemma item_finish_text_chunk [simp]:
  "item_finish (text_chunk t f) = (if truthy f then f else None)"
  by (simp add: item_finish_def text_chunk_def current_chunk_finish_reason_def)

subsection \<open>The loop body agrees with the shape of the items\<close>

lemma find_choices_find:
  "find_choices ps =
     (case List.find (\<lambda>p. p \<noteq> NoChoices) ps of
        Some (WithChoices c) \<Rightarrow> Some c
      | _ \<Rightarrow> None)"
  by (induction ps rule: find_choices.induct) simp_all

lemma processed_chunk_shape: "processed_chunk it = chunk_of it"
  by (cases it rule: processed_chunk.cases) (simp_all add: chunk_of_def find_choices_find)

lemma first_choice_shape:
  "first_choice c = (case c of Some (ChoiceList (x # xs)) \<Rightarrow> Some x | _ \<Rightarrow> None)"
  by (cases c rule: first_choice.cases) simp_all

lemma item_delta_shape: "item_delta it = text_delta it"
  by (simp add: item_delta_def text_delta_def processed_chunk_shape first_choice_shape
        content_to_emit_def truthy_def
      split: option.splits choices.splits list.splits attr.splits)

lemma item_finish_shape: "item_finish it = supplied_finish_reason it"
  by (simp add: item_finish_def supplied_finish_reason_def processed_chunk_shape first_choice_shape
        current_chunk_finish_reason_def truthy_def
      split: option.splits choices.splits list.splits attr.splits)

lemma map_filter_concat:
  "List.map_filter f xs = concat (map (\<lambda>x. case f x of None \<Rightarrow> [] | Some y \<Rightarrow> [y]) xs)"
  by (induction xs) (simp_all add: List.map_filter_simps split: option.splits)

lemma deltas_shape: "deltas items = text_deltas items"
  by (simp add: deltas_def text_deltas_def map_filter_concat item_delta_shape)

lemma last_finish_shape: "last_finish items = final_finish_reason items"
proof -
  have e: "concat (map (\<lambda>it. case supplied_finish_reason it of None \<Rightarrow> [] | Some r \<Rightarrow> [r]) items) =
           finish_reasons items"
    by (simp add: finish_reasons_def map_filter_concat item_finish_shape)
  show ?thesis
    unfolding last_finish_def final_finish_reason_def e
    by (cases "finish_reasons items" rule: rev_cases) simp_all
qed

text \<open>
  C4. A stream that is consumed to its end, with no stop request and no exception: the
  accumulated text is the concatenation of the text deltas the items supply, the
  \<open>message_received\<close> signals carry the deltas in order, and one \<open>finished\<close> signal
  follows them, with the last finish reason an item supplied, or \<open>stop\<close>. An item that
  supplies neither a delta nor a finish reason changes nothing and emits nothing. The
  deltas and finish reasons are read off the items' shape (\<open>text_delta\<close>,
  \<open>supplied_finish_reason\<close>), not through the functions of the loop body.
\<close>

theorem stream_accumulation:
  "run (\<lambda>n. False) mdl [] (map Yield items) =
     (concat (text_deltas items),
      map MessageReceived (text_deltas items) @ [Finished (final_finish_reason items)]) \<and>
   (text_delta it = None \<and> supplied_finish_reason it = None \<longrightarrow> process_item it s = s)"
  using run_exhausted[of items "\<lambda>n. False" mdl "[]"] process_item_ignored[of it s]
  by (simp add: deltas_shape last_finish_shape item_delta_shape item_finish_shape)

lemma example_items_deltas: "text_deltas example_items = [''Hel'', ''lo'', '' world'']"
  by (simp add: example_items_def text_deltas_def text_delta_def chunk_of_def text_chunk_def)

lemma example_items_reason: "final_finish_reason example_items = ''length''"
  by (simp add: example_items_def final_finish_reason_def supplied_finish_reason_def chunk_of_def
        text_chunk_def)

theorem stream_accumulation_witness:
  "run (\<lambda>n. False) None [] (map Yield example_items) =
     (''Hello world'',
      [MessageReceived ''Hel'', MessageReceived ''lo'', MessageReceived '' world'',
       Finished ''length'']) \<and>
   process_item (Single NoChoices) (initial_loop_state ''Hel'') = initial_loop_state ''Hel'' \<and>
   process_item (Single (WithChoices (ChoiceList []))) (initial_loop_state ''Hel'') =
     initial_loop_state ''Hel''"
proof -
  have a: "text_delta (Single NoChoices) = None \<and> supplied_finish_reason (Single NoChoices) = None"
    "text_delta (Single (WithChoices (ChoiceList []))) = None \<and>
     supplied_finish_reason (Single (WithChoices (ChoiceList []))) = None"
    by (simp_all add: text_delta_def supplied_finish_reason_def chunk_of_def)
  have r: "run (\<lambda>n. False) None [] (map Yield example_items) =
     (concat (text_deltas example_items),
      map MessageReceived (text_deltas example_items) @ [Finished (final_finish_reason example_items)])"
    using stream_accumulation[of None example_items] by blast
  have p1: "process_item (Single NoChoices) (initial_loop_state ''Hel'') = initial_loop_state ''Hel''"
    using stream_accumulation[of None "[]" "Single NoChoices" "initial_loop_state ''Hel''"] a(1)
    by blast
  have p2: "process_item (Single (WithChoices (ChoiceList []))) (initial_loop_state ''Hel'') =
     initial_loop_state ''Hel''"
    using stream_accumulation[of None "[]" "Single (WithChoices (ChoiceList []))"
        "initial_loop_state ''Hel''"] a(2)
    by blast
  show ?thesis
    using r p1 p2 by (simp add: example_items_deltas example_items_reason)
qed

text \<open>
  C2, as stated, fails: the worker has no signal for a cancellation. A run that is stopped
  at the second item ends with \<open>finished("stop")\<close>, and its signals are those of a run
  that completes on the one-item stream.
\<close>

theorem cancellation_counterexample:
  "snd (run (\<lambda>n. 1 \<le> n) None [] [Yield (text_chunk ''Hel'' None), Yield (text_chunk ''lo'' None)]) =
     [MessageReceived ''Hel'', Finished ''stop''] \<and>
   snd (run (\<lambda>n. False) None [] [Yield (text_chunk ''Hel'' None)]) =
     [MessageReceived ''Hel'', Finished ''stop'']"
  by (simp add: run_def initial_loop_state_def process_item_closed truthy_def)

text \<open>
  C2, amended. When the stop flag is first read as set at iteration \<open>length items\<close>, the
  run consumes nothing from that item on (the result does not depend on \<open>it\<close> and
  \<open>rest\<close>), emits no further \<open>message_received\<close> and ends with exactly one
  \<open>finished\<close> signal, carrying the last finish reason seen before the stop, or \<open>stop\<close>;
  no \<open>error_occurred\<close> is emitted.
\<close>

theorem stop_at_chunk_boundary:
  "(\<forall>j < length items. \<not> flag j) \<Longrightarrow> flag (length items) \<Longrightarrow>
   run flag mdl [] (map Yield items @ Yield it # rest) =
     (concat (deltas items), map MessageReceived (deltas items) @ [Finished (last_finish items)])"
  using run_stopped[of items flag mdl "[]" it rest] by simp

theorem stop_at_chunk_boundary_witness:
  "run (\<lambda>n. 1 \<le> n) None []
     [Yield (text_chunk ''Hel'' None), Yield (text_chunk ''lo'' None), Throw (OtherException ''late'')] =
   (''Hel'', [MessageReceived ''Hel'', Finished ''stop''])"
  using stop_at_chunk_boundary[of "[text_chunk ''Hel'' None]" "\<lambda>n. 1 \<le> n" None "text_chunk ''lo'' None"
          "[Throw (OtherException ''late'')]"]
  by (simp add: deltas_def last_finish_def finish_reasons_def truthy_def)



section \<open>Example states, evaluated\<close>

lemma sent_once_eq:
  "sent_once =
     \<lparr>lists = (\<lambda>a. [])(0 := [user_message ''hi'']), next_list = 1,
      workers = [\<lparr>w_message = ''hi'', w_model = Some ''gpt'', w_conversation_history = 0,
                  w_should_stop = False, w_thread = Running\<rparr>],
      conversation_history = 0, current_ai_message = [], chat_worker = Some 0,
      current_model = Some ''gpt'', ai_message_widget = None,
      chat_layout = [SuggestionsWidget,
                     Widget \<lparr>wid = 0, is_user_message = True, model_name = None, raw_content = ''hi''\<rparr>,
                     Stretch],
      next_wid = 1, message_input = [], errors_shown = [], raised = [], tab_index = - 1\<rparr>"
  by (simp add: sent_once_def send_message_def init_tab_def terminate_worker_def strip_def is_space_def
        handle_message_sent_def add_message_def insert_widget_def Let_def)

lemma sent_twice_eq:
  "sent_twice =
     \<lparr>lists = (\<lambda>a. [])(0 := [user_message ''hi'', user_message ''yo'']), next_list = 1,
      workers = [\<lparr>w_message = ''hi'', w_model = Some ''gpt'', w_conversation_history = 0,
                  w_should_stop = True, w_thread = Returned\<rparr>,
                 \<lparr>w_message = ''yo'', w_model = Some ''gpt'', w_conversation_history = 0,
                  w_should_stop = False, w_thread = Running\<rparr>],
      conversation_history = 0, current_ai_message = [], chat_worker = Some 1,
      current_model = Some ''gpt'', ai_message_widget = None,
      chat_layout = [SuggestionsWidget,
                     Widget \<lparr>wid = 0, is_user_message = True, model_name = None, raw_content = ''hi''\<rparr>,
                     Widget \<lparr>wid = 1, is_user_message = True, model_name = None, raw_content = ''yo''\<rparr>,
                     Stretch],
      next_wid = 2, message_input = [], errors_shown = [], raised = [], tab_index = - 1\<rparr>"
  by (simp add: sent_twice_def sent_once_eq send_message_def terminate_worker_def stop_safely_def
        is_running_def strip_def is_space_def
        handle_message_sent_def add_message_def insert_widget_def Let_def)


section \<open>Properties of the truncation\<close>

subsection \<open>Truncation keeps user and assistant entries only\<close>

lemma trim_history_filter:
  "trim_history uc ac cu ca (filter user_or_assistant h) = trim_history uc ac cu ca h"
  by (induction uc ac cu ca h rule: trim_history.induct) (auto simp: user_or_assistant_def)

lemma trim_history_roles:
  "m \<in> set (trim_history uc ac cu ca h) \<Longrightarrow> user_or_assistant m"
  by (induction uc ac cu ca h rule: trim_history.induct)
     (auto simp: user_or_assistant_def split: if_splits)

lemma history_update_conversation_history_to_index:
  "history (update_conversation_history_to_index i ex st) =
     trim_history
       (fst (count_messages (take (nat (if ex then i else i + 1)) (chat_layout st)) 0 0))
       (snd (count_messages (take (nat (if ex then i else i + 1)) (chat_layout st)) 0 0))
       0 0 (history st)"
  by (simp add: update_conversation_history_to_index_def history_def Let_def split: prod.splits)

text \<open>
  C10. The history that the truncation step of edit and resend leaves holds only
  \<open>user\<close> and \<open>assistant\<close> entries, and it is the history the step would leave if the
  entries of every other role had been deleted beforehand: they are neither kept nor
  counted.
\<close>

theorem truncation_drops_foreign_roles:
  "history (update_conversation_history_to_index i ex st) =
     history (update_conversation_history_to_index i ex
                (st\<lparr>lists := (lists st)(conversation_history st := filter user_or_assistant (history st))\<rparr>)) \<and>
   (\<forall>m \<in> set (history (update_conversation_history_to_index i ex st)). user_or_assistant m)"
proof -
  have "history (st\<lparr>lists := (lists st)(conversation_history st := filter user_or_assistant (history st))\<rparr>)
        = filter user_or_assistant (history st)"
    by (simp add: history_def)
  then show ?thesis
    by (auto simp: history_update_conversation_history_to_index trim_history_filter
             dest: trim_history_roles)
qed

lemma imported_layout:
  "chat_layout imported =
     [SuggestionsWidget,
      Widget \<lparr>wid = 0, is_user_message = False, model_name = None, raw_content = ''be nice''\<rparr>,
      Widget \<lparr>wid = 1, is_user_message = True, model_name = None, raw_content = ''hi''\<rparr>,
      Widget \<lparr>wid = 2, is_user_message = False, model_name = Some ''gpt'', raw_content = ''yo''\<rparr>,
      Stretch]"
  by (simp add: imported_def load_conversation_history_def clear_chat_def init_tab_def Let_def
        add_message_def insert_widget_def msg_model_def truthy_def)

lemma imported_history:
  "history imported =
     [\<lparr>role = ''system'', content = ''be nice'', model = Missing\<rparr>,
      \<lparr>role = ''user'', content = ''hi'', model = Missing\<rparr>,
      \<lparr>role = ''assistant'', content = ''yo'', model = Has (Some ''gpt'')\<rparr>]"
  by (simp add: imported_def load_conversation_history_def clear_chat_def init_tab_def Let_def
        add_message_def insert_widget_def msg_model_def truthy_def history_def)

theorem truncation_drops_foreign_roles_witness:
  "history (update_conversation_history_to_index 2 False imported) =
     [\<lparr>role = ''user'', content = ''hi'', model = Missing\<rparr>,
      \<lparr>role = ''assistant'', content = ''yo'', model = Has (Some ''gpt'')\<rparr>] \<and>
   list_all user_or_assistant (history (update_conversation_history_to_index 2 False imported))"
proof -
  have h: "history (update_conversation_history_to_index 2 False imported) =
     [\<lparr>role = ''user'', content = ''hi'', model = Missing\<rparr>,
      \<lparr>role = ''assistant'', content = ''yo'', model = Has (Some ''gpt'')\<rparr>]"
    by (simp add: history_update_conversation_history_to_index imported_layout imported_history
          numeral_3_eq_3)
  have "\<forall>m \<in> set (history (update_conversation_history_to_index 2 False imported)). user_or_assistant m"
    using truncation_drops_foreign_roles[of 2 False imported] by blast
  then show ?thesis
    using h by (simp only: list_all_iff simp_thms)
qed


section \<open>Stopping workers, and the main window\<close>

subsection \<open>Running workers\<close>

lemma set_running_workers: "set (running_workers st) = {w. is_running st w}"
  by (auto simp: running_workers_def is_running_def)

lemma running_workers_empty: "(running_workers st = []) = (\<forall>w. \<not> is_running st w)"
  using set_running_workers[of st] by (metis empty_Collect_eq empty_iff mem_Collect_eq set_empty)

lemma is_running_cong: "workers st' = workers st \<Longrightarrow> is_running st' w = is_running st w"
  by (simp add: is_running_def)

lemma is_running_chat_worker_update [simp]: "is_running (st\<lparr>chat_worker := x\<rparr>) w = is_running st w"
  by (simp add: is_running_def)

lemma is_running_stop_safely:
  "is_running (stop_safely g w st) v = (is_running st v \<and> v \<noteq> w)"
  by (auto simp: stop_safely_def is_running_def nth_list_update)

lemma is_running_terminate_worker:
  "is_running (terminate_worker g st) v = (is_running st v \<and> chat_worker st \<noteq> Some v)"
  by (cases "chat_worker st") (auto simp: terminate_worker_def is_running_stop_safely)

lemma terminate_worker_idle:
  "single_flight st \<Longrightarrow> running_workers (terminate_worker g st) = []"
  by (auto simp: running_workers_empty is_running_terminate_worker single_flight_def set_running_workers)

lemma terminate_worker_twice:
  "terminate_worker g (terminate_worker g st) = terminate_worker g st"
  by (auto simp: terminate_worker_def is_running_stop_safely split: option.splits)

subsection \<open>The main window\<close>

lemma length_renumber [simp]: "length (renumber i tabs) = length tabs"
  by (simp add: renumber_def)

lemma length_delete_chat_tab:
  "length (chat_tabs (delete_chat_tab index confirm graceful app)) =
     (if 0 \<le> index \<and> index < int (length (chat_tabs app)) \<and> length (chat_tabs app) \<noteq> 1 \<and>
         nat index < length (tab_list app) \<and> confirm
      then length (chat_tabs app) - 1 else length (chat_tabs app))"
  by (simp add: delete_chat_tab_def Let_def) linarith

lemma delete_chat_tab_nonempty:
  "chat_tabs app \<noteq> [] \<Longrightarrow> chat_tabs (delete_chat_tab index confirm graceful app) \<noteq> []"
proof -
  assume ne: "chat_tabs app \<noteq> []"
  then have "0 < length (chat_tabs app)" by simp
  then have "0 < length (chat_tabs (delete_chat_tab index confirm graceful app))"
    unfolding length_delete_chat_tab by (simp split: if_splits)
  then show ?thesis by auto
qed

lemma apply_app_op_nonempty:
  "chat_tabs app \<noteq> [] \<Longrightarrow> chat_tabs (apply_app_op op app) \<noteq> []"
  by (cases op) (simp_all add: delete_chat_tab_nonempty create_new_chat_tab_def)

lemma fold_apply_app_op_nonempty:
  "chat_tabs app \<noteq> [] \<Longrightarrow> chat_tabs (fold apply_app_op ops app) \<noteq> []"
  by (induction ops arbitrary: app) (simp_all add: apply_app_op_nonempty)

lemma init_app_nonempty: "chat_tabs init_app \<noteq> []"
  by (simp add: init_app_def create_new_chat_tab_def)

lemma delete_chat_tab_last: "length (chat_tabs app) = 1 \<Longrightarrow> delete_chat_tab index confirm graceful app = app"
  by (simp add: delete_chat_tab_def)

lemma delete_chat_tab_removes:
  assumes "1 < length (chat_tabs app)" "0 \<le> index" "index < int (length (chat_tabs app))"
    "nat index < length (tab_list app)" "confirm"
  shows "length (chat_tabs (delete_chat_tab index confirm graceful app)) = length (chat_tabs app) - 1"
    and "deleted_later (delete_chat_tab index confirm graceful app) =
           deleted_later app @ [terminate_worker graceful (chat_tabs app ! nat index)]"
  using assms by (auto simp: delete_chat_tab_def Let_def terminate_worker_twice)

text \<open>
  C9. Deleting the only tab changes nothing; after any sequence of creations and deletions
  at least one tab is left; and when a tab is deleted, the list shrinks by one and the tab
  handed to \<open>deleteLater\<close> has been through \<open>terminate_worker\<close>, after which none
  of its workers is running (given that at most the worker it refers to was).
\<close>

theorem workspace_floor:
  "(length (chat_tabs app) = 1 \<longrightarrow> delete_chat_tab index confirm graceful app = app) \<and>
   chat_tabs (fold apply_app_op ops init_app) \<noteq> [] \<and>
   (1 < length (chat_tabs app) \<and> 0 \<le> index \<and> index < int (length (chat_tabs app)) \<and>
    nat index < length (tab_list app) \<and> confirm \<longrightarrow>
      length (chat_tabs (delete_chat_tab index confirm graceful app)) = length (chat_tabs app) - 1 \<and>
      deleted_later (delete_chat_tab index confirm graceful app) =
        deleted_later app @ [terminate_worker graceful (chat_tabs app ! nat index)] \<and>
      (single_flight (chat_tabs app ! nat index) \<longrightarrow>
         running_workers (terminate_worker graceful (chat_tabs app ! nat index)) = []))"
  using delete_chat_tab_last[of app index confirm graceful]
    fold_apply_app_op_nonempty[OF init_app_nonempty, of ops]
    delete_chat_tab_removes[of app index confirm graceful]
    terminate_worker_idle[of "chat_tabs app ! nat index" graceful]
  by blast

lemma single_flight_sent_once: "single_flight sent_once"
  by (simp add: single_flight_def running_workers_def sent_once_eq is_running_def)

lemma two_tabs_eq:
  "two_tabs = \<lparr>chat_tabs = [sent_once, init_tab\<lparr>tab_index := 1\<rparr>], tab_list = [''New Chat'', ''Second''],
                current_tab_index = 1, deleted_later = []\<rparr>"
  by (simp add: two_tabs_def init_app_def create_new_chat_tab_def)

theorem workspace_floor_witness:
  "delete_chat_tab 0 True True init_app = init_app \<and>
   chat_tabs (fold apply_app_op [Delete 0 True True, Create ''x'', Delete 1 True False] init_app) \<noteq> [] \<and>
   length (chat_tabs (delete_chat_tab 0 True True two_tabs)) = 1 \<and>
   deleted_later (delete_chat_tab 0 True True two_tabs) = [terminate_worker True sent_once] \<and>
   running_workers (terminate_worker True sent_once) = []"
proof -
  have a: "length (chat_tabs init_app) = 1"
    by (simp add: init_app_def create_new_chat_tab_def)
  have w1: "delete_chat_tab 0 True True init_app = init_app"
    "chat_tabs (fold apply_app_op [Delete 0 True True, Create ''x'', Delete 1 True False] init_app) \<noteq> []"
    using workspace_floor[of init_app 0 True True "[Delete 0 True True, Create ''x'', Delete 1 True False]"] a
    by blast+
  have p: "1 < length (chat_tabs two_tabs) \<and> (0::int) \<le> 0 \<and> 0 < int (length (chat_tabs two_tabs)) \<and>
           nat 0 < length (tab_list two_tabs) \<and> True"
    by (simp add: two_tabs_eq)
  have q: "single_flight (chat_tabs two_tabs ! nat 0)"
    by (simp add: two_tabs_eq single_flight_sent_once)
  have w2: "length (chat_tabs (delete_chat_tab 0 True True two_tabs)) = length (chat_tabs two_tabs) - 1"
    "deleted_later (delete_chat_tab 0 True True two_tabs) =
        deleted_later two_tabs @ [terminate_worker True (chat_tabs two_tabs ! nat 0)]"
    "running_workers (terminate_worker True (chat_tabs two_tabs ! nat 0)) = []"
    using workspace_floor[of two_tabs 0 True True "[]"] p q by blast+
  show ?thesis
    using w1 w2 by (simp add: two_tabs_eq)
qed


section \<open>Sending\<close>

subsection \<open>What terminate\_worker leaves alone\<close>

lemma terminate_worker_fields [simp]:
  "lists (terminate_worker g st) = lists st"
  "next_list (terminate_worker g st) = next_list st"
  "conversation_history (terminate_worker g st) = conversation_history st"
  "current_ai_message (terminate_worker g st) = current_ai_message st"
  "current_model (terminate_worker g st) = current_model st"
  "ai_message_widget (terminate_worker g st) = ai_message_widget st"
  "chat_layout (terminate_worker g st) = chat_layout st"
  "next_wid (terminate_worker g st) = next_wid st"
  "message_input (terminate_worker g st) = message_input st"
  "errors_shown (terminate_worker g st) = errors_shown st"
  "length (workers (terminate_worker g st)) = length (workers st)"
  by (auto simp: terminate_worker_def stop_safely_def split: option.splits)

lemma history_terminate_worker [simp]: "history (terminate_worker g st) = history st"
  by (simp add: history_def)

lemma terminate_worker_slot:
  "chat_worker (terminate_worker g st) = Some w \<Longrightarrow> \<not> is_running (terminate_worker g st) w"
  by (auto simp: terminate_worker_def split: option.splits if_splits)

lemma chat_worker_terminate_worker:
  "chat_worker (terminate_worker g st) =
     (case chat_worker st of None \<Rightarrow> None | Some w \<Rightarrow> if is_running st w then None else Some w)"
  by (auto simp: terminate_worker_def split: option.splits)

subsection \<open>send\_message in closed form\<close>

lemma send_message_blank:
  "strip (message_input st) = [] \<Longrightarrow> send_message combo g st = terminate_worker g st"
  by (simp add: send_message_def Let_def)

lemma send_message_nonblank:
  "strip (message_input st) \<noteq> [] \<Longrightarrow>
   send_message combo g st = start_worker combo (strip (message_input st)) (terminate_worker g st)"
proof -
  assume nb: "strip (message_input st) \<noteq> []"
  have idle: "\<not> (case chat_worker (terminate_worker g st) of None \<Rightarrow> False
                  | Some w \<Rightarrow> is_running (terminate_worker g st) w)"
    by (auto split: option.splits dest: terminate_worker_slot)
  show ?thesis
    using nb idle
    by (simp add: send_message_def Let_def start_worker_def handle_message_sent_def add_message_def)
qed

lemma history_start_worker [simp]:
  "history (start_worker combo msg st) = history st @ [user_message msg]"
  by (simp add: start_worker_def history_def)

lemma completion_messages_start_worker:
  "completion_messages (start_worker combo msg st) (length (workers st)) =
     history st @ [user_message msg, user_message msg]"
  by (simp add: start_worker_def completion_messages_def history_def)

text \<open>
  C8. The worker is given the tab's history list itself, not a copy, and \<open>send_message\<close>
  appends the user message to that list right after \<open>start\<close>. When \<open>run\<close> builds its
  \<open>messages\<close> in the state that \<open>send_message\<close> leaves, they are the history at
  submission time followed by the new user message twice.
\<close>

theorem prompt_repeats_user_message:
  "strip (message_input st) \<noteq> [] \<Longrightarrow>
   chat_worker (send_message combo g st) = Some (length (workers st)) \<and>
   history (send_message combo g st) = history st @ [user_message (strip (message_input st))] \<and>
   completion_messages (send_message combo g st) (length (workers st)) =
     history st @ [user_message (strip (message_input st)), user_message (strip (message_input st))]"
  using completion_messages_start_worker[of combo "strip (message_input st)" "terminate_worker g st"]
  by (simp add: send_message_nonblank) (simp add: start_worker_def)

theorem prompt_repeats_user_message_witness:
  "chat_worker sent_once = Some 0 \<and>
   history sent_once = [user_message ''hi''] \<and>
   completion_messages sent_once 0 = [user_message ''hi'', user_message ''hi'']"
  using prompt_repeats_user_message[of "init_tab\<lparr>message_input := ''hi''\<rparr>" "''gpt''" True]
  by (simp add: sent_once_def[symmetric] strip_def is_space_def)
     (simp add: init_tab_def history_def)

subsection \<open>Single flight\<close>

lemma is_running_start_worker:
  "is_running (start_worker combo msg st) v = (is_running st v \<or> v = length (workers st))"
  by (auto simp: start_worker_def is_running_def nth_append)

lemma running_workers_start_worker:
  "running_workers (start_worker combo msg st) = running_workers st @ [length (workers st)]"
proof -
  have len: "length (workers (start_worker combo msg st)) = Suc (length (workers st))"
    by (simp add: start_worker_def)
  have "filter (is_running (start_worker combo msg st)) [0 ..< length (workers st)] =
        filter (is_running st) [0 ..< length (workers st)]"
    by (rule filter_cong) (auto simp: is_running_start_worker)
  then show ?thesis
    unfolding running_workers_def len by (simp add: is_running_start_worker)
qed

lemma workers_terminate_worker_slot:
  "chat_worker st = Some w \<Longrightarrow> is_running st w \<Longrightarrow>
   w_thread (workers (terminate_worker g st) ! w) = (if g then Returned else Terminated) \<and>
   w_should_stop (workers (terminate_worker g st) ! w)"
  by (simp add: terminate_worker_def stop_safely_def is_running_def)

lemma workers_start_worker_old:
  "w < length (workers st) \<Longrightarrow> workers (start_worker combo msg st) ! w = workers st ! w"
  by (simp add: start_worker_def nth_append)

lemma single_flight_terminate_worker: "single_flight st \<Longrightarrow> single_flight (terminate_worker g st)"
  by (simp add: single_flight_def terminate_worker_idle)

lemma single_flight_send_message: "single_flight st \<Longrightarrow> single_flight (send_message combo g st)"
proof (cases "strip (message_input st) = []")
  case True
  then show "single_flight st \<Longrightarrow> ?thesis"
    by (simp add: send_message_blank single_flight_terminate_worker)
next
  case False
  assume "single_flight st"
  then have "running_workers (terminate_worker g st) = []" by (rule terminate_worker_idle)
  then show ?thesis using False
    by (simp add: send_message_nonblank single_flight_def running_workers_start_worker)
       (simp add: start_worker_def)
qed

text \<open>
  C1, amended. In a tab whose only running worker is the one it refers to, \<open>send_message\<close>
  first stops that worker (no worker runs in the state \<open>terminate_worker\<close> leaves, and
  the old thread has returned or was terminated). With text that is not blank it then
  starts one new worker, which is the only one running; with blank text it returns after
  the stop and no worker is running.
\<close>

theorem single_flight_send:
  assumes "single_flight st" "chat_worker st = Some w" "is_running st w"
  shows "running_workers (terminate_worker g st) = [] \<and>
         w_thread (workers (send_message combo g st) ! w) = (if g then Returned else Terminated) \<and>
         running_workers (send_message combo g st) =
           (if strip (message_input st) = [] then [] else [length (workers st)]) \<and>
         chat_worker (send_message combo g st) =
           (if strip (message_input st) = [] then None else Some (length (workers st))) \<and>
         single_flight (send_message combo g st)"
proof -
  have idle: "running_workers (terminate_worker g st) = []"
    using assms(1) by (rule terminate_worker_idle)
  have w: "w < length (workers (terminate_worker g st))"
    using assms(3) by (simp add: is_running_def)
  have old: "w_thread (workers (terminate_worker g st) ! w) = (if g then Returned else Terminated)"
    using workers_terminate_worker_slot[OF assms(2,3)] by simp
  have slot: "chat_worker (terminate_worker g st) = None"
    using assms(2,3) by (simp add: chat_worker_terminate_worker)
  show ?thesis
  proof (cases "strip (message_input st) = []")
    case True
    then show ?thesis
      using idle old slot single_flight_send_message[OF assms(1), of combo g]
      by (simp add: send_message_blank)
  next
    case False
    have "chat_worker (start_worker combo (strip (message_input st)) (terminate_worker g st)) =
          Some (length (workers st))"
      by (simp add: start_worker_def)
    then show ?thesis
      using False idle old single_flight_send_message[OF assms(1), of combo g]
        workers_start_worker_old[OF w]
      by (simp add: send_message_nonblank running_workers_start_worker)
  qed
qed

lemma running_sent_once: "is_running sent_once 0"
  by (simp add: sent_once_eq is_running_def)

theorem single_flight_send_witness:
  "running_workers (terminate_worker True sent_once) = [] \<and>
   w_thread (workers sent_twice ! 0) = Returned \<and>
   running_workers sent_twice = [1] \<and>
   chat_worker sent_twice = Some 1 \<and>
   single_flight sent_twice"
proof -
  have a: "chat_worker (sent_once\<lparr>message_input := ''yo''\<rparr>) = Some 0"
    "is_running (sent_once\<lparr>message_input := ''yo''\<rparr>) 0"
    "single_flight (sent_once\<lparr>message_input := ''yo''\<rparr>)"
    "strip (message_input (sent_once\<lparr>message_input := ''yo''\<rparr>)) \<noteq> []"
    "length (workers (sent_once\<lparr>message_input := ''yo''\<rparr>)) = 1"
    "terminate_worker True (sent_once\<lparr>message_input := ''yo''\<rparr>) =
       (terminate_worker True sent_once)\<lparr>message_input := ''yo''\<rparr>"
    by (simp_all add: sent_once_eq is_running_def single_flight_def running_workers_def
          strip_def is_space_def terminate_worker_def stop_safely_def)
  have "is_running (st\<lparr>message_input := x\<rparr>) = is_running st" for st x
    by (rule ext) (simp add: is_running_def)
  then have b: "running_workers (st\<lparr>message_input := x\<rparr>) = running_workers st" for st x
    by (simp add: running_workers_def)
  show ?thesis
    using single_flight_send[OF a(3) a(1) a(2), of True "''gpt''"] a(4,5,6)
    by (simp add: sent_twice_def[symmetric] b)
qed

text \<open>
  C1, as stated, fails for blank text: the running worker is stopped and none is started.
\<close>

theorem single_flight_counterexample:
  "is_running sent_once 0 \<and>
   running_workers (send_message ''gpt'' True (sent_once\<lparr>message_input := ''  ''\<rparr>)) = []"
  by (simp add: sent_once_eq is_running_def running_workers_def send_message_def Let_def
        terminate_worker_def stop_safely_def strip_def is_space_def)


section \<open>The slots\<close>

subsection \<open>The slots, field by field\<close>

lemma add_message_fields [simp]:
  "lists (add_message t u m st) = lists st"
  "conversation_history (add_message t u m st) = conversation_history st"
  "workers (add_message t u m st) = workers st"
  "chat_worker (add_message t u m st) = chat_worker st"
  "current_ai_message (add_message t u m st) = current_ai_message st"
  "current_model (add_message t u m st) = current_model st"
  "errors_shown (add_message t u m st) = errors_shown st"
  "ai_message_widget (add_message t u m st) = ai_message_widget st"
  "raised (add_message t u m st) = raised st"
  by (simp_all add: add_message_def)

lemma history_add_message [simp]: "history (add_message t u m st) = history st"
  by (simp add: history_def)

lemma is_running_add_message [simp]: "is_running (add_message t u m st) w = is_running st w"
  by (simp add: is_running_def)

subsection \<open>Widgets in the layout\<close>

lemma has_widget_append: "has_widget i (xs @ ys) = (has_widget i xs \<or> has_widget i ys)"
  by (auto simp: has_widget_def list_ex_iff)

lemma has_widget_insert_widget:
  "has_widget i (insert_widget w l) = (wid w = i \<or> has_widget i l)"
proof -
  have "has_widget i l = (has_widget i (take (length l - 1) l) \<or> has_widget i (drop (length l - 1) l))"
    using has_widget_append[of i "take (length l - 1) l" "drop (length l - 1) l"] by simp
  moreover have "has_widget i [Widget w] = (wid w = i)" by (simp add: has_widget_def)
  ultimately show ?thesis
    unfolding insert_widget_def has_widget_append by blast
qed

lemma has_widget_update_content: "has_widget i (update_content j t l) = has_widget i l"
  by (induction l) (auto simp: has_widget_def update_content_def split: layout_item.splits)

lemma reply_widget_deleted_None: "ai_message_widget st = None \<Longrightarrow> \<not> reply_widget_deleted st"
  by (simp add: reply_widget_deleted_def)

lemma not_deleted_not_raises: "\<not> reply_widget_deleted st \<Longrightarrow> \<not> finish_raises st"
  by (simp add: finish_raises_def)

subsection \<open>The slots, continued\<close>

lemma handle_ai_message_chunk_fields [simp]:
  "lists (handle_ai_message_chunk c st) = lists st"
  "conversation_history (handle_ai_message_chunk c st) = conversation_history st"
  "workers (handle_ai_message_chunk c st) = workers st"
  "chat_worker (handle_ai_message_chunk c st) = chat_worker st"
  "current_ai_message (handle_ai_message_chunk c st) = current_ai_message st @ c"
  "current_model (handle_ai_message_chunk c st) = current_model st"
  "errors_shown (handle_ai_message_chunk c st) = errors_shown st"
  by (simp_all add: handle_ai_message_chunk_def Let_def split: option.splits)

lemma handle_ai_message_chunk_not_deleted:
  "\<not> reply_widget_deleted st \<Longrightarrow>
   \<not> reply_widget_deleted (handle_ai_message_chunk c st) \<and>
   raised (handle_ai_message_chunk c st) = raised st"
  by (cases "ai_message_widget st")
     (simp_all add: handle_ai_message_chunk_def Let_def reply_widget_deleted_def
        add_message_def has_widget_insert_widget has_widget_update_content)

lemma handle_ai_message_chunk_deleted:
  "reply_widget_deleted st \<Longrightarrow>
   handle_ai_message_chunk c st =
     st\<lparr>current_ai_message := current_ai_message st @ c, raised := raised st @ [RuntimeError]\<rparr>"
  by (cases "ai_message_widget st")
     (simp_all add: handle_ai_message_chunk_def Let_def reply_widget_deleted_def)

lemma history_handle_ai_message_chunk [simp]:
  "history (handle_ai_message_chunk c st) = history st"
  by (simp add: history_def)

lemma stop_safely_fields [simp]:
  "lists (stop_safely g w st) = lists st"
  "conversation_history (stop_safely g w st) = conversation_history st"
  "chat_worker (stop_safely g w st) = chat_worker st"
  "current_ai_message (stop_safely g w st) = current_ai_message st"
  "current_model (stop_safely g w st) = current_model st"
  "errors_shown (stop_safely g w st) = errors_shown st"
  "chat_layout (stop_safely g w st) = chat_layout st"
  "ai_message_widget (stop_safely g w st) = ai_message_widget st"
  "raised (stop_safely g w st) = raised st"
  "length (workers (stop_safely g w st)) = length (workers st)"
  by (simp_all add: stop_safely_def)

lemma history_stop_safely [simp]: "history (stop_safely g w st) = history st"
  by (simp add: history_def)

lemma handle_chat_finished_raises:
  "finish_raises st \<Longrightarrow> handle_chat_finished r g st = st\<lparr>raised := raised st @ [RuntimeError]\<rparr>"
  by (simp add: handle_chat_finished_def finish_raises_def)

lemma handle_chat_finished_fields [simp]:
  "current_ai_message (handle_chat_finished r g st) = current_ai_message st"
  "current_model (handle_chat_finished r g st) = current_model st"
  "errors_shown (handle_chat_finished r g st) = errors_shown st"
  "conversation_history (handle_chat_finished r g st) = conversation_history st"
  "ai_message_widget (handle_chat_finished r g st) = ai_message_widget st"
  by (simp_all add: handle_chat_finished_def Let_def split: option.splits)

lemma chat_worker_handle_chat_finished:
  "\<not> finish_raises st \<Longrightarrow> chat_worker (handle_chat_finished r g st) = None"
  by (auto simp: handle_chat_finished_def finish_raises_def Let_def split: option.splits)

lemma raised_handle_chat_finished:
  "\<not> finish_raises st \<Longrightarrow> raised (handle_chat_finished r g st) = raised st"
  by (auto simp: handle_chat_finished_def finish_raises_def Let_def split: option.splits)

lemma history_handle_chat_finished:
  "\<not> finish_raises st \<Longrightarrow>
   history (handle_chat_finished r g st) =
     history st @ (if current_ai_message st = [] then []
                   else [assistant_message (current_ai_message st) (current_model st)])"
  by (auto simp: handle_chat_finished_def finish_raises_def Let_def history_def split: option.splits)

lemma is_running_lists_update [simp]: "is_running (st\<lparr>lists := l\<rparr>) w = is_running st w"
  by (simp add: is_running_def)

lemma is_running_handle_chat_finished:
  "\<not> finish_raises st \<Longrightarrow>
   is_running (handle_chat_finished r g st) v = (is_running st v \<and> chat_worker st \<noteq> Some v)"
  by (cases "chat_worker st")
     (auto simp: handle_chat_finished_def finish_raises_def Let_def is_running_stop_safely)

lemma chat_layout_handle_chat_finished:
  "\<not> finish_raises st \<Longrightarrow>
   chat_layout (handle_chat_finished r g st) =
     (if current_ai_message st \<noteq> [] \<and> r = ''length''
      then insert_widget \<lparr>wid = next_wid st, is_user_message = False, model_name = Some ''System'',
                           raw_content = length_warning\<rparr> (chat_layout st)
      else chat_layout st)"
  by (auto simp: handle_chat_finished_def finish_raises_def add_message_def Let_def split: option.splits)

lemma handle_chat_finished_not_deleted:
  "\<not> reply_widget_deleted st \<Longrightarrow> \<not> reply_widget_deleted (handle_chat_finished r g st)"
  using chat_layout_handle_chat_finished[OF not_deleted_not_raises, of st r g]
  by (cases "ai_message_widget st") (simp_all add: reply_widget_deleted_def has_widget_insert_widget)

lemma show_error_fields [simp]:
  "lists (show_error t st) = lists st"
  "conversation_history (show_error t st) = conversation_history st"
  "workers (show_error t st) = workers st"
  "chat_worker (show_error t st) = chat_worker st"
  "current_ai_message (show_error t st) = current_ai_message st"
  "current_model (show_error t st) = current_model st"
  "errors_shown (show_error t st) = errors_shown st @ [t]"
  "ai_message_widget (show_error t st) = ai_message_widget st"
  "chat_layout (show_error t st) = chat_layout st"
  "raised (show_error t st) = raised st"
  by (simp_all add: show_error_def)

lemma reply_widget_deleted_show_error [simp]:
  "reply_widget_deleted (show_error t st) = reply_widget_deleted st"
  by (simp add: reply_widget_deleted_def split: option.splits)

lemma finish_raises_show_error [simp]: "finish_raises (show_error t st) = finish_raises st"
  by (simp add: finish_raises_def)

lemma history_show_error [simp]: "history (show_error t st) = history st"
  by (simp add: history_def)

text \<open>The one message that \<open>handle_error\<close> shows for an error text.\<close>

lemma handle_error_unfold:
  "handle_error e g st = handle_chat_finished ''error'' g (show_error (shown_error e) st)"
  by (simp add: handle_error_def shown_error_def)

lemma handle_error_fields:
  "current_ai_message (handle_error e g st) = current_ai_message st"
  "current_model (handle_error e g st) = current_model st"
  "conversation_history (handle_error e g st) = conversation_history st"
  "errors_shown (handle_error e g st) = errors_shown st @ [shown_error e]"
  "ai_message_widget (handle_error e g st) = ai_message_widget st"
  by (simp_all add: handle_error_unfold)

lemma handle_error_applied:
  assumes "\<not> finish_raises st"
  shows "chat_worker (handle_error e g st) = None"
    and "raised (handle_error e g st) = raised st"
    and "history (handle_error e g st) =
           history st @ (if current_ai_message st = [] then []
                         else [assistant_message (current_ai_message st) (current_model st)])"
  using assms
  by (simp_all add: handle_error_unfold chat_worker_handle_chat_finished raised_handle_chat_finished
        history_handle_chat_finished)

lemma handle_error_not_deleted:
  "\<not> reply_widget_deleted st \<Longrightarrow> \<not> reply_widget_deleted (handle_error e g st)"
  by (simp add: handle_error_unfold handle_chat_finished_not_deleted)

text \<open>
  C5, amended. The slots apply every signal they receive, whichever worker emitted it, as
  long as the reply widget the tab refers to has not been deleted (by a clear during the
  reply): a chunk is appended to the current buffer; a \<open>finished\<close> signal appends the
  buffer (when it is not empty) to the history, stops the worker the tab refers to at that
  moment and empties the slot; an \<open>error_occurred\<close> signal shows one error and then does
  the same. No exception leaves the slot.
\<close>

theorem late_events_are_applied:
  assumes "\<not> reply_widget_deleted st"
  shows "current_ai_message (deliver g (w, MessageReceived c) st) = current_ai_message st @ c \<and>
         raised (deliver g (w, MessageReceived c) st) = raised st \<and>
         chat_worker (deliver g (w, Finished r) st) = None \<and>
         (\<forall>v. chat_worker st = Some v \<longrightarrow> \<not> is_running (deliver g (w, Finished r) st) v) \<and>
         history (deliver g (w, Finished r) st) =
           history st @ (if current_ai_message st = [] then []
                         else [assistant_message (current_ai_message st) (current_model st)]) \<and>
         raised (deliver g (w, Finished r) st) = raised st \<and>
         errors_shown (deliver g (w, ErrorOccurred e) st) = errors_shown st @ [shown_error e] \<and>
         chat_worker (deliver g (w, ErrorOccurred e) st) = None \<and>
         history (deliver g (w, ErrorOccurred e) st) =
           history st @ (if current_ai_message st = [] then []
                         else [assistant_message (current_ai_message st) (current_model st)]) \<and>
         raised (deliver g (w, ErrorOccurred e) st) = raised st"
proof -
  note nr = not_deleted_not_raises[OF assms]
  show ?thesis
    using handle_ai_message_chunk_not_deleted[OF assms, of c] handle_error_applied[OF nr, of e g]
    by (simp add: history_handle_chat_finished[OF nr] is_running_handle_chat_finished[OF nr]
          chat_worker_handle_chat_finished[OF nr] raised_handle_chat_finished[OF nr]
          handle_error_fields)
qed

lemma sent_twice_fields:
  "chat_worker sent_twice = Some 1" "is_running sent_twice 1" "current_ai_message sent_twice = []"
  "ai_message_widget sent_twice = None" "raised sent_twice = []" "errors_shown sent_twice = []"
  by (simp_all add: sent_twice_eq is_running_def)

lemma streaming_fields:
  "ai_message_widget streaming = Some 1" "current_ai_message streaming = ''Hel''"
  "current_model streaming = Some ''gpt''" "history streaming = [user_message ''hi'']"
  "chat_worker streaming = Some 0" "is_running streaming 0" "raised streaming = []"
  "\<not> reply_widget_deleted streaming"
  by (simp_all add: streaming_def handle_ai_message_chunk_def sent_once_eq add_message_def
        insert_widget_def Let_def history_def reply_widget_deleted_def has_widget_def
        is_running_def)

theorem late_events_are_applied_witness:
  "chat_worker sent_twice = Some 1 \<and> is_running sent_twice 1 \<and>
   current_ai_message (deliver True (0, MessageReceived ''old'') sent_twice) = ''old'' \<and>
   chat_worker (deliver True (0, Finished ''stop'') sent_twice) = None \<and>
   \<not> is_running (deliver True (0, Finished ''stop'') sent_twice) 1 \<and>
   history (deliver True (0, Finished ''stop'') sent_twice) = history sent_twice \<and>
   errors_shown (deliver True (0, ErrorOccurred ''late'') sent_twice) = [shown_error ''late''] \<and>
   chat_worker (deliver True (0, ErrorOccurred ''late'') sent_twice) = None \<and>
   raised (deliver True (0, ErrorOccurred ''late'') sent_twice) = [] \<and>
   ai_message_widget streaming = Some 1 \<and> is_running streaming 0 \<and>
   current_ai_message (deliver True (0, MessageReceived ''lo'') streaming) = ''Hello'' \<and>
   raised (deliver True (0, MessageReceived ''lo'') streaming) = [] \<and>
   history (deliver True (0, Finished ''stop'') streaming) =
     [user_message ''hi'', assistant_message ''Hel'' (Some ''gpt'')] \<and>
   chat_worker (deliver True (0, Finished ''stop'') streaming) = None \<and>
   \<not> is_running (deliver True (0, Finished ''stop'') streaming) 0 \<and>
   history (deliver True (0, ErrorOccurred ''late'') streaming) =
     [user_message ''hi'', assistant_message ''Hel'' (Some ''gpt'')] \<and>
   raised (deliver True (0, ErrorOccurred ''late'') streaming) = []"
proof -
  have n: "\<not> reply_widget_deleted sent_twice"
    by (simp add: reply_widget_deleted_None sent_twice_fields)
  have a: "chat_worker sent_twice = Some 1 \<and> is_running sent_twice 1 \<and>
   current_ai_message (deliver True (0, MessageReceived ''old'') sent_twice) = ''old'' \<and>
   chat_worker (deliver True (0, Finished ''stop'') sent_twice) = None \<and>
   \<not> is_running (deliver True (0, Finished ''stop'') sent_twice) 1 \<and>
   history (deliver True (0, Finished ''stop'') sent_twice) = history sent_twice \<and>
   errors_shown (deliver True (0, ErrorOccurred ''late'') sent_twice) = [shown_error ''late''] \<and>
   chat_worker (deliver True (0, ErrorOccurred ''late'') sent_twice) = None \<and>
   raised (deliver True (0, ErrorOccurred ''late'') sent_twice) = []"
    using late_events_are_applied[OF n, of True 0 "''old''" "''stop''" "''late''"] sent_twice_fields
    by simp
  have b: "ai_message_widget streaming = Some 1 \<and> is_running streaming 0 \<and>
   current_ai_message (deliver True (0, MessageReceived ''lo'') streaming) = ''Hello'' \<and>
   raised (deliver True (0, MessageReceived ''lo'') streaming) = [] \<and>
   history (deliver True (0, Finished ''stop'') streaming) =
     [user_message ''hi'', assistant_message ''Hel'' (Some ''gpt'')] \<and>
   chat_worker (deliver True (0, Finished ''stop'') streaming) = None \<and>
   \<not> is_running (deliver True (0, Finished ''stop'') streaming) 0 \<and>
   history (deliver True (0, ErrorOccurred ''late'') streaming) =
     [user_message ''hi'', assistant_message ''Hel'' (Some ''gpt'')] \<and>
   raised (deliver True (0, ErrorOccurred ''late'') streaming) = []"
    using late_events_are_applied[OF streaming_fields(8), of True 0 "''lo''" "''stop''" "''late''"]
      streaming_fields(1-7)
    by simp
  show ?thesis using a b by blast
qed

text \<open>
  C5, as stated, fails. After a second send has replaced worker 0 by worker 1, a chunk of
  worker 0 lands in the buffer of the new session, and the \<open>finished\<close> signal of worker 0
  stops worker 1 and empties the slot.
\<close>

theorem superseded_events_counterexample:
  "chat_worker sent_twice = Some 1 \<and> is_running sent_twice 1 \<and>
   current_ai_message sent_twice = [] \<and>
   current_ai_message (deliver True (0, MessageReceived ''old'') sent_twice) = ''old'' \<and>
   chat_worker (deliver True (0, Finished ''stop'') sent_twice) = None \<and>
   \<not> is_running (deliver True (0, Finished ''stop'') sent_twice) 1"
proof -
  have n: "\<not> finish_raises sent_twice"
    by (simp add: finish_raises_def sent_twice_fields)
  show ?thesis
    using sent_twice_fields
    by (simp add: chat_worker_handle_chat_finished[OF n] is_running_handle_chat_finished[OF n])
qed

text \<open>
  Where the reply widget has been deleted the slots raise instead. The chat is cleared
  after the first chunk of a reply: the next chunk still extends the buffer, and the
  \<open>finished\<close> signal leaves the history and the slot as they are.
\<close>

lemma cleared_midway_fields:
  "ai_message_widget cleared_midway = Some 1" "chat_layout cleared_midway = [SuggestionsWidget, Stretch]"
  "current_ai_message cleared_midway = ''A''" "current_model cleared_midway = Some ''gpt''"
  "chat_worker cleared_midway = Some 0" "history cleared_midway = []" "raised cleared_midway = []"
  by (simp_all add: cleared_midway_def clear_chat_def handle_ai_message_chunk_def sent_once_eq
        add_message_def insert_widget_def Let_def history_def)

lemma history_raised_update [simp]: "history (st\<lparr>raised := x\<rparr>) = history st"
  by (simp add: history_def)

lemma cleared_midway_raises:
  "reply_widget_deleted cleared_midway \<and>
   current_ai_message (handle_ai_message_chunk ''B'' cleared_midway) = ''AB'' \<and>
   raised (handle_ai_message_chunk ''B'' cleared_midway) = [RuntimeError] \<and>
   raised (handle_chat_finished ''stop'' True cleared_midway) = [RuntimeError] \<and>
   history (handle_chat_finished ''stop'' True cleared_midway) = [] \<and>
   chat_worker (handle_chat_finished ''stop'' True cleared_midway) = Some 0"
proof -
  have d: "reply_widget_deleted cleared_midway"
    by (simp add: reply_widget_deleted_def cleared_midway_fields has_widget_def)
  then have f: "finish_raises cleared_midway"
    by (simp add: finish_raises_def cleared_midway_fields truthy_def)
  show ?thesis
    using d by (simp add: handle_ai_message_chunk_deleted[OF d] handle_chat_finished_raises[OF f]
          cleared_midway_fields)
qed


section \<open>Sessions that end in a fault\<close>

lemma run_raised:
  "(\<forall>j < length items. \<not> flag j) \<Longrightarrow>
   run flag mdl acc (map Yield items @ Throw e # rest) =
     (acc @ concat (deltas items),
      map MessageReceived (deltas items) @ [ErrorOccurred (worker_error mdl e), Finished ''error''])"
  using run_loop_yields[of items flag 0 "Throw e # rest" "initial_loop_state acc"]
  by (cases e) (simp_all add: run_def worker_error_def after_items_def initial_loop_state_def)

lemma deliver_all_append:
  "deliver_all g (evs @ evs') st = deliver_all g evs' (deliver_all g evs st)"
  by (simp add: deliver_all_def)

lemma deliver_all_chunks:
  "current_ai_message (deliver_all g (map (Pair w) (map MessageReceived ds)) st) =
     current_ai_message st @ concat ds \<and>
   history (deliver_all g (map (Pair w) (map MessageReceived ds)) st) = history st \<and>
   chat_worker (deliver_all g (map (Pair w) (map MessageReceived ds)) st) = chat_worker st \<and>
   current_model (deliver_all g (map (Pair w) (map MessageReceived ds)) st) = current_model st \<and>
   errors_shown (deliver_all g (map (Pair w) (map MessageReceived ds)) st) = errors_shown st \<and>
   workers (deliver_all g (map (Pair w) (map MessageReceived ds)) st) = workers st"
proof (induction ds arbitrary: st)
  case Nil
  then show ?case by (simp add: deliver_all_def)
next
  case (Cons d ds)
  show ?case
    using Cons.IH[of "handle_ai_message_chunk d st"] by (simp add: deliver_all_def)
qed

lemma run_session_raised:
  assumes "chat_worker st = Some w" "\<forall>j < length items. \<not> flag j"
  shows "run_session flag (map Yield items @ Throw e # rest) g st =
           handle_chat_finished ''error'' g
             (handle_error (worker_error (w_model (workers st ! w)) e) g
                (deliver_all g (map (Pair w) (map MessageReceived (deltas items))) st))"
  using assms
  by (simp add: run_session_def run_raised deliver_all_append)
     (simp add: deliver_all_def)

lemma deliver_all_chunks_not_deleted:
  "\<not> reply_widget_deleted st \<Longrightarrow>
   \<not> reply_widget_deleted (deliver_all g (map (Pair w) (map MessageReceived ds)) st) \<and>
   raised (deliver_all g (map (Pair w) (map MessageReceived ds)) st) = raised st"
proof (induction ds arbitrary: st)
  case Nil
  then show ?case by (simp add: deliver_all_def)
next
  case (Cons d ds)
  have a: "\<not> reply_widget_deleted (handle_ai_message_chunk d st)"
    "raised (handle_ai_message_chunk d st) = raised st"
    using handle_ai_message_chunk_not_deleted[OF Cons.prems, of d] by simp_all
  show ?case
    using Cons.IH[OF a(1)] a(2) by (simp add: deliver_all_def)
qed

lemma faulted_session_exact:
  assumes "chat_worker st = Some w" "\<forall>j < length items. \<not> flag j" "\<not> reply_widget_deleted st"
  shows "errors_shown (run_session flag (map Yield items @ Throw e # rest) g st) =
           errors_shown st @ [shown_error (worker_error (w_model (workers st ! w)) e)]"
    and "chat_worker (run_session flag (map Yield items @ Throw e # rest) g st) = None"
    and "raised (run_session flag (map Yield items @ Throw e # rest) g st) = raised st"
    and "history (run_session flag (map Yield items @ Throw e # rest) g st) =
           history st @
           (if current_ai_message st @ concat (text_deltas items) = [] then []
            else replicate 2 (assistant_message (current_ai_message st @ concat (text_deltas items))
                                (current_model st)))"
proof -
  let ?msg = "worker_error (w_model (workers st ! w)) e"
  let ?s1 = "deliver_all g (map (Pair w) (map MessageReceived (deltas items))) st"
  let ?s2 = "handle_error ?msg g ?s1"
  let ?p = "current_ai_message st @ concat (text_deltas items)"
  have run: "run_session flag (map Yield items @ Throw e # rest) g st =
               handle_chat_finished ''error'' g ?s2"
    using run_session_raised[OF assms(1,2)] .
  have s1: "current_ai_message ?s1 = ?p" "history ?s1 = history st" "current_model ?s1 = current_model st"
    "errors_shown ?s1 = errors_shown st"
    using deliver_all_chunks[of g w "deltas items" st] by (simp_all add: deltas_shape)
  have d1: "\<not> reply_widget_deleted ?s1" "raised ?s1 = raised st"
    using deliver_all_chunks_not_deleted[OF assms(3), of g w "deltas items"] by simp_all
  note n1 = not_deleted_not_raises[OF d1(1)]
  have s2: "current_ai_message ?s2 = ?p" "current_model ?s2 = current_model st"
    "errors_shown ?s2 = errors_shown st @ [shown_error ?msg]"
    "history ?s2 = history st @ (if ?p = [] then [] else [assistant_message ?p (current_model st)])"
    "raised ?s2 = raised st"
    using handle_error_applied[OF n1, of ?msg g]
    by (simp_all only: handle_error_fields s1 d1(2))
  have d2: "\<not> reply_widget_deleted ?s2" using d1(1) by (rule handle_error_not_deleted)
  note n2 = not_deleted_not_raises[OF d2]
  show "errors_shown (run_session flag (map Yield items @ Throw e # rest) g st) =
           errors_shown st @ [shown_error ?msg]"
    unfolding run by (simp only: handle_chat_finished_fields s2)
  show "chat_worker (run_session flag (map Yield items @ Throw e # rest) g st) = None"
    unfolding run by (rule chat_worker_handle_chat_finished[OF n2])
  show "raised (run_session flag (map Yield items @ Throw e # rest) g st) = raised st"
    unfolding run by (simp only: raised_handle_chat_finished[OF n2] s2)
  show "history (run_session flag (map Yield items @ Throw e # rest) g st) =
           history st @
           (if ?p = [] then [] else replicate 2 (assistant_message ?p (current_model st)))"
    unfolding run history_handle_chat_finished[OF n2] s2 by (simp add: numeral_2_eq_2)
qed

text \<open>
  C3, amended. When the stream raises (and the reply widget has not been deleted by a
  clear during the reply), the tab shows exactly one error message and empties the slot.
  When no text had been accumulated the history is unchanged; when some had,
  \<open>handle_error\<close> passes through \<open>handle_chat_finished\<close>, which appends the partial
  text to the history as an assistant entry.
\<close>

theorem faulted_session:
  assumes "chat_worker st = Some w" "\<forall>j < length items. \<not> flag j" "\<not> reply_widget_deleted st"
  shows "errors_shown (run_session flag (map Yield items @ Throw e # rest) g st) =
           errors_shown st @ [shown_error (worker_error (w_model (workers st ! w)) e)] \<and>
         chat_worker (run_session flag (map Yield items @ Throw e # rest) g st) = None \<and>
         raised (run_session flag (map Yield items @ Throw e # rest) g st) = raised st \<and>
         (current_ai_message st @ concat (text_deltas items) = [] \<longrightarrow>
            history (run_session flag (map Yield items @ Throw e # rest) g st) = history st) \<and>
         (current_ai_message st @ concat (text_deltas items) \<noteq> [] \<longrightarrow>
            (\<exists>n > 0. history (run_session flag (map Yield items @ Throw e # rest) g st) =
               history st @
               replicate n (assistant_message (current_ai_message st @ concat (text_deltas items))
                              (current_model st))))"
  using faulted_session_exact[OF assms, of e rest g] by auto

lemma sent_once_fields:
  "chat_worker sent_once = Some 0" "current_ai_message sent_once = []"
  "current_model sent_once = Some ''gpt''" "history sent_once = [user_message ''hi'']"
  "errors_shown sent_once = []" "w_model (workers sent_once ! 0) = Some ''gpt''"
  "ai_message_widget sent_once = None" "raised sent_once = []"
  by (simp_all add: sent_once_eq history_def)

lemma sent_once_not_deleted: "\<not> reply_widget_deleted sent_once"
  by (simp add: reply_widget_deleted_None sent_once_fields)

lemma faulted_unfold:
  "faulted = run_session (\<lambda>n. False) (map Yield [text_chunk ''Hel'' None] @
               Throw (OtherException ''rate limit reached'') # []) True sent_once"
  by (simp add: faulted_def)

lemma deltas_Hel: "text_deltas [text_chunk ''Hel'' None] = [''Hel'']"
  by (simp add: deltas_shape[symmetric] deltas_def)

theorem faulted_session_witness:
  "errors_shown faulted =
     [shown_error (worker_error (Some ''gpt'') (OtherException ''rate limit reached''))] \<and>
   chat_worker faulted = None \<and> raised faulted = [] \<and>
   assistant_message ''Hel'' (Some ''gpt'') \<in> set (history faulted)"
proof -
  have f: "\<forall>j < length [text_chunk ''Hel'' None]. \<not> (\<lambda>n. False) j" by simp
  have ne: "current_ai_message sent_once @ concat (text_deltas [text_chunk ''Hel'' None]) \<noteq> []"
    by (simp add: deltas_Hel)
  note t = faulted_session[OF sent_once_fields(1) f sent_once_not_deleted,
      of "OtherException ''rate limit reached''" "[]" True, folded faulted_unfold]
  from t ne obtain n where "n > 0"
    "history faulted = history sent_once @
       replicate n (assistant_message
                      (current_ai_message sent_once @ concat (text_deltas [text_chunk ''Hel'' None]))
                      (current_model sent_once))"
    by blast
  then have "assistant_message ''Hel'' (Some ''gpt'') \<in> set (history faulted)"
    by (simp add: sent_once_fields deltas_Hel)
  then show ?thesis using t by (simp add: sent_once_fields)
qed

text \<open>
  C3, as stated, fails: a stream that raises after the chunk \<open>Hel\<close> leaves assistant
  entries with the partial text in the history.
\<close>

theorem error_pollution_counterexample:
  "history sent_once = [user_message ''hi''] \<and>
   history faulted =
     [user_message ''hi'', assistant_message ''Hel'' (Some ''gpt''), assistant_message ''Hel'' (Some ''gpt'')]"
proof -
  have f: "\<forall>j < length [text_chunk ''Hel'' None]. \<not> (\<lambda>n. False) j" by simp
  show ?thesis
    using faulted_session_exact(4)[OF sent_once_fields(1) f sent_once_not_deleted,
      of "OtherException ''rate limit reached''" "[]" True, folded faulted_unfold]
    by (simp add: sent_once_fields deltas_Hel numeral_2_eq_2)
qed


section \<open>Edit and resend: the truncation\<close>

lemma trim_history_take_gen:
  "i < length h \<Longrightarrow> role (h ! i) = ''user'' \<Longrightarrow>
   (\<forall>m \<in> set (take i h). user_or_assistant m) \<Longrightarrow>
   cu + length (filter (is_role ''user'') (take i h)) = uc \<Longrightarrow>
   ca + length (filter (is_role ''assistant'') (take i h)) \<le> ac \<Longrightarrow>
   trim_history uc ac cu ca h = take i h"
proof (induction h arbitrary: i cu ca)
  case Nil
  then show ?case by simp
next
  case (Cons m ms)
  show ?case
  proof (cases i)
    case 0
    then show ?thesis using Cons.prems by simp
  next
    case (Suc j)
    have ua: "user_or_assistant m" using Cons.prems(3) Suc by simp
    show ?thesis
    proof (cases "role m = ''user''")
      case True
      have "trim_history uc ac (Suc cu) ca ms = take j ms"
        using Cons.prems Suc True by (intro Cons.IH) (auto simp: is_role_def)
      moreover have "cu < uc" using Cons.prems(4) Suc True by (simp add: is_role_def)
      ultimately show ?thesis using Suc True by simp
    next
      case False
      then have a: "role m = ''assistant''" using ua by (simp add: user_or_assistant_def)
      have "trim_history uc ac cu (Suc ca) ms = take j ms"
        using Cons.prems Suc False a by (intro Cons.IH) (auto simp: is_role_def)
      moreover have "ca < ac" using Cons.prems(5) Suc a by (simp add: is_role_def)
      ultimately show ?thesis using Suc False a by simp
    qed
  qed
qed

lemma index_of_Some:
  "index_of x l = Some p \<Longrightarrow> p < length l \<and> l ! p = x \<and> x \<notin> set (take p l)"
proof (induction l arbitrary: p)
  case Nil
  then show ?case by simp
next
  case (Cons y ys)
  show ?case
  proof (cases "y = x")
    case True
    then show ?thesis using Cons.prems by simp
  next
    case False
    then obtain q where q: "index_of x ys = Some q" "p = Suc q"
      using Cons.prems by auto
    then show ?thesis using Cons.IH[OF q(1)] False by simp
  qed
qed

lemma take_truncated_layout:
  assumes "index_of x l = Some p"
  shows "take p (remove1 x (remove_messages_after_index p False l)) = take p l"
proof -
  have p: "p < length l" "l ! p = x" "x \<notin> set (take p l)"
    using index_of_Some[OF assms] by simp_all
  have "take (p + 1) l = take p l @ [x]"
    using p by (simp add: take_Suc_conv_app_nth)
  then have "remove_messages_after_index p False l = take p l @ x # 
      (filter (\<lambda>it. \<not> is_chat_message it) (take (length l - 1 - (p + 1)) (drop (p + 1) l)) @
       drop (max (p + 1) (length l - 1)) l)"
    by (simp add: remove_messages_after_index_def)
  then have "remove1 x (remove_messages_after_index p False l) = take p l @
      (filter (\<lambda>it. \<not> is_chat_message it) (take (length l - 1 - (p + 1)) (drop (p + 1) l)) @
       drop (max (p + 1) (length l - 1)) l)"
    using p(3) by (simp add: remove1_append)
  then show ?thesis using p(1) by simp
qed

lemma history_layout_update [simp]: "history (st\<lparr>chat_layout := l\<rparr>) = history st"
  by (simp add: history_def)

lemma history_message_input_update [simp]: "history (st\<lparr>message_input := l\<rparr>) = history st"
  by (simp add: history_def)

lemma truncation_step:
  assumes "index_of (Widget mw) (chat_layout st) = Some p"
    "i < length (history st)" "role (history st ! i) = ''user''"
    "\<forall>m \<in> set (take i (history st)). user_or_assistant m"
    "fst (count_messages (take p (chat_layout st)) 0 0) =
       length (filter (is_role ''user'') (take i (history st)))"
    "length (filter (is_role ''assistant'') (take i (history st))) \<le>
       snd (count_messages (take p (chat_layout st)) 0 0)"
  shows "history (update_conversation_history_to_index (int p - 1) False
           (st\<lparr>chat_layout := remove1 (Widget mw)
                  (remove_messages_after_index p False (chat_layout st))\<rparr>)) = take i (history st)"
  using assms(2-6)
  by (simp add: history_update_conversation_history_to_index take_truncated_layout[OF assms(1)]
        trim_history_take_gen)

lemma dropWhile_id: "xs = [] \<or> \<not> P (hd xs) \<Longrightarrow> dropWhile P xs = xs"
  by (cases xs) auto

lemma strip_idem: "strip (strip s) = strip s"
proof -
  define t where "t = dropWhile is_space s"
  define u where "u = dropWhile is_space (rev t)"
  have t: "t = [] \<or> \<not> is_space (hd t)"
    unfolding t_def using hd_dropWhile[of is_space s] by blast
  have u: "u = [] \<or> \<not> is_space (hd u)"
    unfolding u_def using hd_dropWhile[of is_space "rev t"] by blast
  have "rev u = [] \<or> \<not> is_space (hd (rev u))"
  proof (cases "u = []")
    case True
    then show ?thesis by simp
  next
    case False
    obtain ys where ys: "rev t = ys @ u" unfolding u_def
      by (metis takeWhile_dropWhile_id)
    then have "t = rev u @ rev ys" by (metis rev_append rev_rev_ident)
    then have "hd (rev u) = hd t" "t \<noteq> []" using False by auto
    then show ?thesis using t by simp
  qed
  then have a: "dropWhile is_space (rev u) = rev u" by (rule dropWhile_id)
  have b: "dropWhile is_space (rev (rev u)) = u" using u by (simp add: dropWhile_id)
  show ?thesis
    unfolding strip_def t_def[symmetric] u_def[symmetric] using a b by simp
qed

lemma strip_Nil [simp]: "strip [] = []"
  by (simp add: strip_def)

lemma history_send_message:
  "strip (message_input st) \<noteq> [] \<Longrightarrow>
   history (send_message combo g st) = history st @ [user_message (strip (message_input st))]"
  by (simp add: send_message_nonblank)

lemma history_update_last_message:
  assumes "index_of (Widget mw) (chat_layout st) = Some p"
    and "strip (if text \<noteq> [] then strip text else raw_content mw) \<noteq> []"
  shows "history (update_last_message mw text combo g st) =
           history (update_conversation_history_to_index (int p - 1) False
             (st\<lparr>chat_layout := remove1 (Widget mw)
                    (remove_messages_after_index p False (chat_layout st))\<rparr>)) @
           [user_message (strip (if text \<noteq> [] then strip text else raw_content mw))]"
  using assms by (simp add: update_last_message_def Let_def history_send_message)

text \<open>
  C6, amended. The truncation counts widgets, not history entries. When the entries in
  front of the target (history index \<open>i\<close>, layout position \<open>p\<close>) are user and assistant
  entries, the user widgets in front of the target are as many as the user entries, and
  the other message widgets at least as many as the assistant entries, the history is cut
  to its first \<open>i\<close> entries, whatever came after; edit then appends the new text and
  resend the text of the widget.
\<close>

theorem truncate_correctness:
  assumes "index_of (Widget mw) (chat_layout st) = Some p"
    "i < length (history st)" "role (history st ! i) = ''user''"
    "\<forall>m \<in> set (take i (history st)). user_or_assistant m"
    "fst (count_messages (take p (chat_layout st)) 0 0) =
       length (filter (is_role ''user'') (take i (history st)))"
    "length (filter (is_role ''assistant'') (take i (history st))) \<le>
       snd (count_messages (take p (chat_layout st)) 0 0)"
  shows "history (update_conversation_history_to_index (int p - 1) False
           (st\<lparr>chat_layout := remove1 (Widget mw)
                  (remove_messages_after_index p False (chat_layout st))\<rparr>)) = take i (history st) \<and>
         (chat_worker st = None \<and> strip text \<noteq> [] \<longrightarrow>
            history (handle_edit_request mw (Some text) combo g st) =
              take i (history st) @ [user_message (strip text)]) \<and>
         (strip (raw_content mw) \<noteq> [] \<longrightarrow>
            history (handle_resend_request mw combo g st) =
              take i (history st) @ [user_message (strip (raw_content mw))])"
proof -
  note step = truncation_step[OF assms]
  have edit: "history (handle_edit_request mw (Some text) combo g st) =
              take i (history st) @ [user_message (strip text)]"
    if "chat_worker st = None" "strip text \<noteq> []"
  proof -
    have "text \<noteq> []" using that(2) by auto
    then show ?thesis
      using that history_update_last_message[OF assms(1), of "text" combo g] step
      by (simp add: handle_edit_request_def strip_idem)
  qed
  have resend: "history (handle_resend_request mw combo g st) =
              take i (history st) @ [user_message (strip (raw_content mw))]"
    if "strip (raw_content mw) \<noteq> []"
    using that history_update_last_message[OF assms(1), of "[]" combo g] step
    by (simp add: handle_resend_request_def)
  show ?thesis using step edit resend by blast
qed

lemma replied_eq:
  "replied =
     \<lparr>lists = (\<lambda>a. [])(0 := [user_message ''hi'', assistant_message ''Hello'' (Some ''gpt'')]),
      next_list = 1,
      workers = [\<lparr>w_message = ''hi'', w_model = Some ''gpt'', w_conversation_history = 0,
                  w_should_stop = True, w_thread = Returned\<rparr>],
      conversation_history = 0, current_ai_message = ''Hello'', chat_worker = None,
      current_model = Some ''gpt'', ai_message_widget = Some 1,
      chat_layout = [SuggestionsWidget,
                     Widget \<lparr>wid = 0, is_user_message = True, model_name = None, raw_content = ''hi''\<rparr>,
                     Widget \<lparr>wid = 1, is_user_message = False, model_name = Some ''gpt'',
                             raw_content = ''Hello''\<rparr>,
                     Stretch],
      next_wid = 2, message_input = [], errors_shown = [], raised = [], tab_index = - 1\<rparr>"
proof -
  have a: "send_message ''gpt'' True (init_tab\<lparr>message_input := ''hi''\<rparr>) = sent_once"
    by (simp add: sent_once_def)
  have r: "run (\<lambda>n. False) (Some ''gpt'') [] [Yield (text_chunk ''Hello'' (Some ''stop''))] =
             (''Hello'', [MessageReceived ''Hello'', Finished ''stop''])"
    using run_exhausted[of "[text_chunk ''Hello'' (Some ''stop'')]" "\<lambda>n. False" "Some ''gpt''" "[]"]
    by (simp add: deltas_def last_finish_def finish_reasons_def truthy_def)
  show ?thesis
    unfolding replied_def apply_tab_op.simps a
    by (simp add: run_session_def sent_once_eq r deliver_all_def handle_ai_message_chunk_def
          handle_chat_finished_def add_message_def insert_widget_def stop_safely_def is_running_def
          assistant_message_def Let_def reply_widget_deleted_def has_widget_def truthy_def)
qed

lemma replied_twice_eq:
  "replied_twice =
     \<lparr>lists = (\<lambda>a. [])(0 := [user_message ''hi'', assistant_message ''Hello'' (Some ''gpt''),
                              user_message ''more'', assistant_message ''Sure'' (Some ''gpt'')]),
      next_list = 1,
      workers = [\<lparr>w_message = ''hi'', w_model = Some ''gpt'', w_conversation_history = 0,
                  w_should_stop = True, w_thread = Returned\<rparr>,
                 \<lparr>w_message = ''more'', w_model = Some ''gpt'', w_conversation_history = 0,
                  w_should_stop = True, w_thread = Returned\<rparr>],
      conversation_history = 0, current_ai_message = ''Sure'', chat_worker = None,
      current_model = Some ''gpt'', ai_message_widget = Some 3,
      chat_layout = [SuggestionsWidget,
                     Widget \<lparr>wid = 0, is_user_message = True, model_name = None, raw_content = ''hi''\<rparr>,
                     Widget \<lparr>wid = 1, is_user_message = False, model_name = Some ''gpt'',
                             raw_content = ''Hello''\<rparr>,
                     Widget second_user_widget,
                     Widget \<lparr>wid = 3, is_user_message = False, model_name = Some ''gpt'',
                             raw_content = ''Sure''\<rparr>,
                     Widget \<lparr>wid = 4, is_user_message = False, model_name = Some ''System'',
                             raw_content = length_warning\<rparr>,
                     Stretch],
      next_wid = 5, message_input = [], errors_shown = [], raised = [], tab_index = - 1\<rparr>"
proof -
  have r: "run (\<lambda>n. False) (Some ''gpt'') [] [Yield (text_chunk ''Sure'' (Some ''length''))] =
             (''Sure'', [MessageReceived ''Sure'', Finished ''length''])"
    using run_exhausted[of "[text_chunk ''Sure'' (Some ''length'')]" "\<lambda>n. False" "Some ''gpt''" "[]"]
    by (simp add: deltas_def last_finish_def finish_reasons_def truthy_def)
  have s: "send_message ''gpt'' True (replied\<lparr>message_input := ''more''\<rparr>) =
        start_worker ''gpt'' ''more'' replied"
    by (simp add: send_message_nonblank strip_def is_space_def terminate_worker_def replied_eq)
       (simp add: start_worker_def)
  show ?thesis
    unfolding replied_twice_def apply_tab_op.simps s
    by (simp add: run_session_def start_worker_def replied_eq r deliver_all_def
          handle_ai_message_chunk_def second_user_widget_def
          handle_chat_finished_def add_message_def insert_widget_def stop_safely_def is_running_def
          assistant_message_def Let_def reply_widget_deleted_def has_widget_def truthy_def)
qed

theorem truncate_correctness_witness:
  "history replied_twice =
     [user_message ''hi'', assistant_message ''Hello'' (Some ''gpt''),
      user_message ''more'', assistant_message ''Sure'' (Some ''gpt'')] \<and>
   history (update_conversation_history_to_index (int 3 - 1) False
      (replied_twice\<lparr>chat_layout := remove1 (Widget second_user_widget)
          (remove_messages_after_index 3 False (chat_layout replied_twice))\<rparr>)) =
     [user_message ''hi'', assistant_message ''Hello'' (Some ''gpt'')] \<and>
   history (handle_edit_request second_user_widget (Some '' other '') ''gpt'' True replied_twice) =
     [user_message ''hi'', assistant_message ''Hello'' (Some ''gpt''), user_message ''other''] \<and>
   history (handle_resend_request second_user_widget ''gpt'' True replied_twice) =
     [user_message ''hi'', assistant_message ''Hello'' (Some ''gpt''), user_message ''more'']"
proof -
  have h: "history replied_twice =
     [user_message ''hi'', assistant_message ''Hello'' (Some ''gpt''),
      user_message ''more'', assistant_message ''Sure'' (Some ''gpt'')]"
    by (simp add: replied_twice_eq history_def)
  have a1: "index_of (Widget second_user_widget) (chat_layout replied_twice) = Some 3"
    by (simp add: replied_twice_eq second_user_widget_def)
  have a2: "2 < length (history replied_twice)" "role (history replied_twice ! 2) = ''user''"
    "\<forall>m \<in> set (take 2 (history replied_twice)). user_or_assistant m"
    by (simp_all add: h user_message_def assistant_message_def user_or_assistant_def numeral_2_eq_2)
  have l: "take 3 (chat_layout replied_twice) =
       [SuggestionsWidget,
        Widget \<lparr>wid = 0, is_user_message = True, model_name = None, raw_content = ''hi''\<rparr>,
        Widget \<lparr>wid = 1, is_user_message = False, model_name = Some ''gpt'', raw_content = ''Hello''\<rparr>]"
    by (simp add: replied_twice_eq numeral_3_eq_3)
  have a3: "fst (count_messages (take 3 (chat_layout replied_twice)) 0 0) =
       length (filter (is_role ''user'') (take 2 (history replied_twice)))"
    "length (filter (is_role ''assistant'') (take 2 (history replied_twice))) \<le>
       snd (count_messages (take 3 (chat_layout replied_twice)) 0 0)"
    unfolding h l
    by (simp_all add: numeral_2_eq_2 is_role_def user_message_def assistant_message_def)
  have b: "chat_worker replied_twice = None" "strip '' other '' = ''other''"
    "strip (raw_content second_user_widget) = ''more''"
    by (simp_all add: replied_twice_eq strip_def is_space_def second_user_widget_def)
  have t: "take 2 (history replied_twice) = [user_message ''hi'', assistant_message ''Hello'' (Some ''gpt'')]"
    by (simp add: h numeral_2_eq_2)
  show ?thesis
    using truncate_correctness[OF a1 a2 a3, of "'' other ''" "''gpt''" True] b h t
    by simp
qed

lemma chat_worker_imported: "chat_worker imported = None"
  by (simp add: imported_def load_conversation_history_def clear_chat_def init_tab_def Let_def
        msg_model_def truthy_def)

text \<open>
  C6, as stated, fails on an imported history that begins with a \<open>system\<close> entry: the
  user message is at history index 1, and editing it leaves no entry in front of the new
  message.
\<close>

theorem truncate_counterexample:
  "history imported ! 1 = user_message ''hi'' \<and>
   index_of (Widget \<lparr>wid = 1, is_user_message = True, model_name = None, raw_content = ''hi''\<rparr>)
     (chat_layout imported) = Some 2 \<and>
   history (update_conversation_history_to_index (int 2 - 1) False
      (imported\<lparr>chat_layout :=
          remove1 (Widget \<lparr>wid = 1, is_user_message = True, model_name = None, raw_content = ''hi''\<rparr>)
            (remove_messages_after_index 2 False (chat_layout imported))\<rparr>)) = [] \<and>
   history (handle_edit_request \<lparr>wid = 1, is_user_message = True, model_name = None, raw_content = ''hi''\<rparr>
              (Some ''hello'') ''gpt'' True imported) = [user_message ''hello'']"
proof -
  let ?mw = "\<lparr>wid = 1, is_user_message = True, model_name = None, raw_content = ''hi''\<rparr>"
  have i: "index_of (Widget ?mw) (chat_layout imported) = Some 2"
    by (simp add: imported_layout)
  have s: "strip ''hello'' = ''hello''"
    by (simp add: strip_def is_space_def)
  have t: "history (update_conversation_history_to_index (int 2 - 1) False
      (imported\<lparr>chat_layout := remove1 (Widget ?mw)
            (remove_messages_after_index 2 False (chat_layout imported))\<rparr>)) = []"
    by (simp add: history_update_conversation_history_to_index imported_layout imported_history
          remove_messages_after_index_def is_chat_message_def numeral_2_eq_2)
  have e: "history (handle_edit_request ?mw (Some ''hello'') ''gpt'' True imported) = [user_message ''hello'']"
    using history_update_last_message[OF i, of "''hello''" "''gpt''" True] t
    by (simp add: handle_edit_request_def chat_worker_imported s)
  show ?thesis using i t e by (simp add: imported_history user_message_def)
qed


section \<open>Alternation of the history\<close>

subsection \<open>Alternating histories\<close>

lemma alternating_append:
  "alternating b (xs @ ys) =
     (alternating b xs \<and> alternating (if even (length xs) then b else \<not> b) ys)"
  by (induction xs arbitrary: b) auto

lemma alternating_take: "alternating b xs \<Longrightarrow> alternating b (take n xs)"
proof (induction xs arbitrary: b n)
  case Nil
  then show ?case by simp
next
  case (Cons x xs)
  then show ?case by (cases n) auto
qed

lemma trim_history_alternating:
  "alternating True h \<Longrightarrow> uc - cu \<le> ac - ca \<Longrightarrow>
   trim_history uc ac cu ca h = take (2 * (uc - cu)) h"
proof (induction h arbitrary: cu ca rule: induct_list012)
  case 1
  then show ?case by simp
next
  case (2 m)
  then show ?case by (cases "uc - cu") auto
next
  case (3 m1 m2 rest)
  have r: "role m1 = ''user''" "role m2 = ''assistant''" "alternating True rest"
    using "3.prems"(1) by simp_all
  show ?case
  proof (cases "cu < uc")
    case False
    then show ?thesis using r by simp
  next
    case True
    then have ca: "ca < ac" using "3.prems"(2) by linarith
    have le: "uc - Suc cu \<le> ac - Suc ca" using "3.prems"(2) True by linarith
    have t: "2 * (uc - cu) = Suc (Suc (2 * (uc - Suc cu)))" using True by linarith
    have "trim_history uc ac (Suc cu) (Suc ca) rest = take (2 * (uc - Suc cu)) rest"
      using "3.IH"(1)[OF r(3) le] .
    then show ?thesis using r True ca unfolding t by simp
  qed
qed

lemma even_length_take: "even (length h) \<Longrightarrow> even (length (take (2 * k) h))"
  by (simp add: min_def)

subsection \<open>Balanced layouts\<close>

lemma balanced_no_messages:
  "\<forall>z \<in> set zs. \<not> is_chat_message z \<Longrightarrow> balanced u a zs = (u \<le> a)"
  by (induction u a zs rule: balanced.induct) (auto simp: is_chat_message_def)

lemma balanced_before_user:
  "balanced u a (xs @ Widget m # ys) \<Longrightarrow> is_user_message m \<Longrightarrow>
   fst (count_messages xs u a) \<le> snd (count_messages xs u a)"
  by (induction u a xs rule: balanced.induct) (auto split: if_splits)

lemma balanced_cut:
  "balanced u a (xs @ Widget m # ys) \<Longrightarrow> is_user_message m \<Longrightarrow>
   \<forall>z \<in> set zs. \<not> is_chat_message z \<Longrightarrow> balanced u a (xs @ zs)"
  by (induction u a xs rule: balanced.induct) (auto split: if_splits simp: balanced_no_messages)

lemma balanced_exchange:
  "balanced u a (xs @ [z]) \<Longrightarrow> \<not> is_chat_message z \<Longrightarrow> is_user_message mu \<Longrightarrow>
   \<not> is_user_message ma \<Longrightarrow> balanced u a (xs @ [Widget mu, Widget ma, z])"
  by (induction u a xs rule: balanced.induct)
     (auto split: if_splits simp: balanced_no_messages)

lemma balanced_other:
  "balanced u a (xs @ [z]) \<Longrightarrow> \<not> is_chat_message z \<Longrightarrow> \<not> is_user_message mw \<Longrightarrow>
   balanced u a (xs @ [Widget mw, z])"
  by (induction u a xs rule: balanced.induct)
     (auto split: if_splits simp: balanced_no_messages)

lemma balanced_update_content: "balanced u a (update_content i t l) = balanced u a l"
  by (induction u a l rule: balanced.induct) (auto simp: update_content_def)

subsection \<open>Layouts that end with the stretch\<close>

lemma insert_widget_snoc: "insert_widget w (xs @ [z]) = xs @ [Widget w, z]"
  by (simp add: insert_widget_def)

lemma layout_ok_snoc:
  "layout_ok l = (\<exists>xs z. l = xs @ [z] \<and> \<not> is_chat_message z \<and> balanced 0 0 (xs @ [z]))"
proof
  assume a: "layout_ok l"
  then have "l = butlast l @ [last l]" by (simp add: layout_ok_def)
  then show "\<exists>xs z. l = xs @ [z] \<and> \<not> is_chat_message z \<and> balanced 0 0 (xs @ [z])"
    using a unfolding layout_ok_def by metis
next
  assume "\<exists>xs z. l = xs @ [z] \<and> \<not> is_chat_message z \<and> balanced 0 0 (xs @ [z])"
  then show "layout_ok l" by (auto simp: layout_ok_def)
qed

lemma layout_ok_exchange:
  "layout_ok l \<Longrightarrow> is_user_message mu \<Longrightarrow> \<not> is_user_message ma \<Longrightarrow>
   layout_ok (insert_widget ma (insert_widget mu l))"
proof -
  assume a: "layout_ok l" "is_user_message mu" "\<not> is_user_message ma"
  then obtain xs z where l: "l = xs @ [z]" "\<not> is_chat_message z" "balanced 0 0 (xs @ [z])"
    unfolding layout_ok_snoc by blast
  have "insert_widget ma (insert_widget mu l) = (xs @ [Widget mu, Widget ma]) @ [z]"
    using insert_widget_snoc[of ma "xs @ [Widget mu]" z] by (simp add: l(1) insert_widget_snoc)
  moreover have "balanced 0 0 ((xs @ [Widget mu, Widget ma]) @ [z])"
    using balanced_exchange[OF l(3) l(2) a(2) a(3)] by simp
  ultimately show ?thesis using l(2) unfolding layout_ok_snoc by blast
qed

lemma layout_ok_other:
  "layout_ok l \<Longrightarrow> \<not> is_user_message mw \<Longrightarrow> layout_ok (insert_widget mw l)"
proof -
  assume a: "layout_ok l" "\<not> is_user_message mw"
  then obtain xs z where l: "l = xs @ [z]" "\<not> is_chat_message z" "balanced 0 0 (xs @ [z])"
    unfolding layout_ok_snoc by blast
  have "insert_widget mw l = (xs @ [Widget mw]) @ [z]"
    by (simp add: l(1) insert_widget_snoc)
  moreover have "balanced 0 0 ((xs @ [Widget mw]) @ [z])"
    using balanced_other[OF l(3) l(2) a(2)] by simp
  ultimately show ?thesis using l(2) unfolding layout_ok_snoc by blast
qed

lemma is_chat_message_update_content:
  "l \<noteq> [] \<Longrightarrow> is_chat_message (last (update_content i t l)) = is_chat_message (last l)"
  by (simp add: update_content_def last_map is_chat_message_def split: layout_item.splits)

lemma layout_ok_update_content: "layout_ok (update_content i t l) = layout_ok l"
proof (cases "l = []")
  case True
  then show ?thesis by (simp add: layout_ok_def update_content_def)
next
  case False
  then have "update_content i t l \<noteq> []" by (simp add: update_content_def)
  then show ?thesis
    using False by (simp add: layout_ok_def balanced_update_content is_chat_message_update_content)
qed

lemma settled_layout_ok:
  "settled st = (chat_worker st = None \<and> alternating True (history st) \<and> even (length (history st)) \<and>
                 layout_ok (chat_layout st))"
  by (auto simp: settled_def layout_ok_def)

lemma settled_init_tab: "settled init_tab"
  by (simp add: settled_def init_tab_def history_def is_chat_message_def)

subsection \<open>A session that runs to the end\<close>

lemma yields_Some: "yields stream = Some items \<Longrightarrow> stream = map Yield items"
proof (induction stream arbitrary: items rule: yields.induct)
  case 1
  then show ?case by simp
next
  case (2 it rest)
  then show ?case by auto
next
  case (3 e rest)
  then show ?case by simp
qed

lemma good_stream_run:
  assumes "good_stream stream"
  obtains ds r where "ds \<noteq> []" "concat ds \<noteq> []"
    "run (\<lambda>n. False) mdl [] stream = (concat ds, map MessageReceived ds @ [Finished r])"
proof -
  from assms obtain items where i: "yields stream = Some items" "concat (deltas items) \<noteq> []"
    by (auto simp: good_stream_def split: option.splits)
  have "run (\<lambda>n. False) mdl [] stream =
          (concat (deltas items), map MessageReceived (deltas items) @ [Finished (last_finish items)])"
    using run_exhausted[of items "\<lambda>n. False" mdl "[]"] yields_Some[OF i(1)] by simp
  moreover have "deltas items \<noteq> []" using i(2) by auto
  ultimately show ?thesis using that i(2) by blast
qed

lemma chat_layout_handle_ai_message_chunk:
  "chat_layout (handle_ai_message_chunk c st) =
     (case ai_message_widget st of
        None \<Rightarrow> insert_widget \<lparr>wid = next_wid st, is_user_message = False,
                                model_name = current_model st,
                                raw_content = current_ai_message st @ c\<rparr> (chat_layout st)
      | Some i \<Rightarrow> if has_widget i (chat_layout st)
                  then update_content i (current_ai_message st @ c) (chat_layout st)
                  else chat_layout st)"
  by (simp add: handle_ai_message_chunk_def add_message_def Let_def split: option.splits)

lemma ai_message_widget_handle_ai_message_chunk:
  "ai_message_widget (handle_ai_message_chunk c st) \<noteq> None"
  by (simp add: handle_ai_message_chunk_def add_message_def Let_def split: option.splits)

lemma chunks_keep_layout_ok:
  "ai_message_widget st \<noteq> None \<Longrightarrow> layout_ok (chat_layout st) \<Longrightarrow>
   layout_ok (chat_layout (deliver_all g (map (Pair w) (map MessageReceived ds)) st))"
proof (induction ds arbitrary: st)
  case Nil
  then show ?case by (simp add: deliver_all_def)
next
  case (Cons d ds)
  have "layout_ok (chat_layout (handle_ai_message_chunk d st))"
    using Cons.prems by (auto simp: chat_layout_handle_ai_message_chunk layout_ok_update_content)
  then show ?case
    using Cons.IH[of "handle_ai_message_chunk d st"] ai_message_widget_handle_ai_message_chunk[of d st]
    by (simp add: deliver_all_def)
qed

lemma chunks_make_layout_ok:
  assumes "ds \<noteq> []" "ai_message_widget st = None" "chat_layout st = insert_widget mu l"
    "layout_ok l" "is_user_message mu"
  shows "layout_ok (chat_layout (deliver_all g (map (Pair w) (map MessageReceived ds)) st))"
proof -
  obtain d ds' where ds: "ds = d # ds'" using assms(1) by (cases ds) auto
  have "layout_ok (chat_layout (handle_ai_message_chunk d st))"
    using assms(2-5) by (simp add: chat_layout_handle_ai_message_chunk layout_ok_exchange)
  then show ?thesis
    using chunks_keep_layout_ok[of "handle_ai_message_chunk d st" g w ds']
      ai_message_widget_handle_ai_message_chunk[of d st]
    by (simp add: ds deliver_all_def)
qed

lemma layout_ok_handle_chat_finished:
  "layout_ok (chat_layout st) \<Longrightarrow> layout_ok (chat_layout (handle_chat_finished r g st))"
proof (cases "finish_raises st")
  case True
  then show "layout_ok (chat_layout st) \<Longrightarrow> ?thesis"
    by (simp add: handle_chat_finished_raises)
next
  case False
  then show "layout_ok (chat_layout st) \<Longrightarrow> ?thesis"
    by (simp add: chat_layout_handle_chat_finished layout_ok_other)
qed

lemma settled_after_session:
  assumes "settled st" "good_stream stream" "msg \<noteq> []"
  shows "settled (run_session (\<lambda>n. False) stream g (start_worker combo msg st))"
proof -
  let ?s0 = "start_worker combo msg st"
  let ?w = "length (workers st)"
  have s0: "chat_worker ?s0 = Some ?w" "ai_message_widget ?s0 = None" "current_ai_message ?s0 = []"
    "chat_layout ?s0 = insert_widget \<lparr>wid = next_wid st, is_user_message = True, model_name = None,
                                        raw_content = msg\<rparr> (chat_layout st)"
    by (simp_all add: start_worker_def)
  obtain ds r where run: "ds \<noteq> []" "concat ds \<noteq> []"
    "run (\<lambda>n. False) (w_model (workers ?s0 ! ?w)) [] stream =
       (concat ds, map MessageReceived ds @ [Finished r])"
    using good_stream_run[OF assms(2)] by metis
  let ?s1 = "deliver_all g (map (Pair ?w) (map MessageReceived ds)) ?s0"
  have fin: "run_session (\<lambda>n. False) stream g ?s0 = handle_chat_finished r g ?s1"
    by (simp add: run_session_def s0(1) run(3) deliver_all_append) (simp add: deliver_all_def)
  have s1: "current_ai_message ?s1 = concat ds" "history ?s1 = history st @ [user_message msg]"
    using deliver_all_chunks[of g ?w ds ?s0] by (simp_all add: s0(3))
  have lay: "layout_ok (chat_layout ?s1)"
    using chunks_make_layout_ok[OF run(1) s0(2) s0(4)] assms(1) by (simp add: settled_layout_ok)
  have "\<not> reply_widget_deleted ?s0" using s0(2) by (rule reply_widget_deleted_None)
  then have "\<not> reply_widget_deleted ?s1"
    using deliver_all_chunks_not_deleted[of ?s0 g ?w ds] by simp
  then have n1: "\<not> finish_raises ?s1" by (rule not_deleted_not_raises)
  have h: "history (handle_chat_finished r g ?s1) =
             history st @ [user_message msg, assistant_message (concat ds) (current_model ?s1)]"
    unfolding history_handle_chat_finished[OF n1] s1 using run(2) by simp
  have alt: "alternating True (history st)" "even (length (history st))"
    using assms(1) by (simp_all add: settled_def)
  have "alternating True (history (handle_chat_finished r g ?s1))"
    unfolding h using alt by (simp add: alternating_append user_message_def assistant_message_def)
  moreover have "even (length (history (handle_chat_finished r g ?s1)))"
    unfolding h using alt by simp
  ultimately show ?thesis
    unfolding fin settled_layout_ok
    using layout_ok_handle_chat_finished[OF lay] chat_worker_handle_chat_finished[OF n1] by simp
qed

lemma terminate_worker_no_session: "chat_worker st = None \<Longrightarrow> terminate_worker g st = st"
  by (simp add: terminate_worker_def)

lemma run_session_no_session: "chat_worker st = None \<Longrightarrow> run_session flag stream g st = st"
  by (simp add: run_session_def)

lemma settled_message_input [simp]: "settled (st\<lparr>message_input := x\<rparr>) = settled st"
  by (simp add: settled_def)

lemma settled_send:
  assumes "settled st" "good_stream stream"
  shows "settled (run_session (\<lambda>n. False) stream g (send_message combo g st))"
proof (cases "strip (message_input st) = []")
  case True
  have "chat_worker st = None" using assms(1) by (simp add: settled_def)
  then show ?thesis
    using True assms(1) by (simp add: send_message_blank terminate_worker_no_session run_session_no_session)
next
  case False
  have "chat_worker st = None" using assms(1) by (simp add: settled_def)
  then show ?thesis
    using False settled_after_session[OF assms, of "strip (message_input st)" g combo]
    by (simp add: send_message_nonblank terminate_worker_no_session)
qed

subsection \<open>The truncation keeps a tab settled\<close>

lemma remove_messages_after_index_snoc:
  assumes "p < length xs"
  shows "remove_messages_after_index p False (xs @ [z]) =
           take (Suc p) xs @ filter (\<lambda>it. \<not> is_chat_message it) (drop (Suc p) xs) @ [z]"
proof -
  have a: "length (xs @ [z]) - 1 - (p + 1) = length xs - Suc p" by simp
  have b: "max (p + 1) (length (xs @ [z]) - 1) = length xs" using assms by simp
  have c: "take (p + 1) (xs @ [z]) = take (Suc p) xs" using assms by simp
  have d: "take (length xs - Suc p) (drop (p + 1) (xs @ [z])) = drop (Suc p) xs"
    using assms by simp
  have e: "drop (length xs) (xs @ [z]) = [z]" by simp
  show ?thesis
    unfolding remove_messages_after_index_def Let_def if_False a b c d e ..
qed

lemma truncated_layout_ok:
  assumes "index_of (Widget mw) l = Some p" "is_user_message mw" "layout_ok l"
  shows "layout_ok (remove1 (Widget mw) (remove_messages_after_index p False l))"
proof -
  obtain xs z where l: "l = xs @ [z]" "\<not> is_chat_message z" "balanced 0 0 (xs @ [z])"
    using assms(3) unfolding layout_ok_snoc by blast
  have p: "p < length l" "l ! p = Widget mw" "Widget mw \<notin> set (take p l)"
    using index_of_Some[OF assms(1)] by simp_all
  have "p \<noteq> length xs"
  proof
    assume "p = length xs"
    then have "l ! p = z" by (simp add: l(1))
    then have "z = Widget mw" using p(2) by simp
    then show False using l(2) by (simp add: is_chat_message_def)
  qed
  then have px: "p < length xs" using p(1) by (simp add: l(1))
  have xp: "xs ! p = Widget mw" using p(2) px by (simp add: l(1) nth_append)
  have tp: "take p l = take p xs" using px by (simp add: l(1))
  have notin: "Widget mw \<notin> set (take p xs)" using p(3) tp by simp
  define zs where "zs = filter (\<lambda>it. \<not> is_chat_message it) (drop (Suc p) xs) @ [z]"
  have zs: "\<forall>y \<in> set zs. \<not> is_chat_message y" "zs \<noteq> []" "last zs = z"
    using l(2) by (auto simp: zs_def)
  have "take (Suc p) xs = take p xs @ [Widget mw]"
    using px xp by (simp add: take_Suc_conv_app_nth)
  then have "remove_messages_after_index p False l = take p xs @ Widget mw # zs"
    unfolding l(1) remove_messages_after_index_snoc[OF px] zs_def by simp
  then have eq: "remove1 (Widget mw) (remove_messages_after_index p False l) = take p xs @ zs"
    using notin by (simp add: remove1_append)
  have e: "take p xs @ Widget mw # drop (Suc p) xs = xs"
    using id_take_nth_drop[OF px, symmetric] by (simp only: xp)
  have "balanced 0 0 ((take p xs @ Widget mw # drop (Suc p) xs) @ [z])"
    using l(3) by (simp only: e)
  then have "balanced 0 0 (take p xs @ Widget mw # (drop (Suc p) xs @ [z]))"
    by (simp only: append_assoc append_Cons)
  then have b: "balanced 0 0 (take p xs @ zs)"
    using balanced_cut[of 0 0 "take p xs" mw "drop (Suc p) xs @ [z]" zs] assms(2) zs(1) by simp
  show ?thesis
    unfolding eq layout_ok_def using zs b l(2) by simp
qed

lemma balanced_counts:
  assumes "index_of (Widget mw) l = Some p" "is_user_message mw" "balanced 0 0 l"
  shows "fst (count_messages (take p l) 0 0) \<le> snd (count_messages (take p l) 0 0)"
proof -
  have p: "p < length l" "l ! p = Widget mw"
    using index_of_Some[OF assms(1)] by simp_all
  have e: "take p l @ Widget mw # drop (Suc p) l = l"
    using id_take_nth_drop[OF p(1), symmetric] by (simp only: p(2))
  have "balanced 0 0 (take p l @ Widget mw # drop (Suc p) l)"
    using assms(3) by (simp only: e)
  then show ?thesis
    using balanced_before_user[of 0 0 "take p l" mw "drop (Suc p) l"] assms(2) by simp
qed

lemma update_conversation_history_to_index_fields [simp]:
  "chat_worker (update_conversation_history_to_index i ex st) = chat_worker st"
  "chat_layout (update_conversation_history_to_index i ex st) = chat_layout st"
  by (simp_all add: update_conversation_history_to_index_def Let_def split: prod.splits)

lemma settled_truncation:
  assumes "settled st" "index_of (Widget mw) (chat_layout st) = Some p" "is_user_message mw"
  shows "settled (update_conversation_history_to_index (int p - 1) False
           (st\<lparr>chat_layout := remove1 (Widget mw)
                  (remove_messages_after_index p False (chat_layout st))\<rparr>))"
proof -
  let ?l2 = "remove1 (Widget mw) (remove_messages_after_index p False (chat_layout st))"
  let ?st' = "update_conversation_history_to_index (int p - 1) False (st\<lparr>chat_layout := ?l2\<rparr>)"
  have s: "chat_worker st = None" "alternating True (history st)" "even (length (history st))"
    "layout_ok (chat_layout st)"
    using assms(1) by (simp_all add: settled_layout_ok)
  define uc where "uc = fst (count_messages (take p (chat_layout st)) 0 0)"
  define ac where "ac = snd (count_messages (take p (chat_layout st)) 0 0)"
  have le: "uc - 0 \<le> ac - 0"
    using balanced_counts[OF assms(2,3)] s(4) by (simp add: uc_def ac_def layout_ok_def)
  have "history ?st' = trim_history uc ac 0 0 (history st)"
    by (simp add: history_update_conversation_history_to_index take_truncated_layout[OF assms(2)]
          uc_def ac_def)
  then have h: "history ?st' = take (2 * uc) (history st)"
    using trim_history_alternating[OF s(2) le] by simp
  have "alternating True (history ?st')" unfolding h using s(2) by (rule alternating_take)
  moreover have "even (length (history ?st'))" unfolding h using s(3) by (rule even_length_take)
  moreover have "layout_ok (chat_layout ?st')"
    using truncated_layout_ok[OF assms(2,3) s(4)] by simp
  ultimately show ?thesis using s(1) by (simp add: settled_layout_ok)
qed

subsection \<open>Every operation keeps a tab settled\<close>

lemma settled_update_last_message:
  assumes "settled st" "good_stream stream" "is_user_message mw"
  shows "settled (run_session (\<lambda>n. False) stream g (update_last_message mw new_text combo g st))"
proof (cases "index_of (Widget mw) (chat_layout st)")
  case None
  then show ?thesis
    using settled_send[OF _ assms(2), of "st\<lparr>message_input := (if new_text \<noteq> [] then strip new_text else raw_content mw)\<rparr>" g combo]
      assms(1)
    by (simp add: update_last_message_def Let_def)
next
  case (Some p)
  let ?st1 = "update_conversation_history_to_index (int p - 1) False
           (st\<lparr>chat_layout := remove1 (Widget mw)
                  (remove_messages_after_index p False (chat_layout st))\<rparr>)"
  have "settled ?st1" using settled_truncation[OF assms(1) Some assms(3)] .
  then have "settled (?st1\<lparr>message_input := (if new_text \<noteq> [] then strip new_text else raw_content mw)\<rparr>)"
    by simp
  from settled_send[OF this assms(2), of g combo] show ?thesis
    using Some by (simp add: update_last_message_def Let_def)
qed

lemma settled_apply_tab_op:
  assumes "settled st" "good_op op"
  shows "settled (apply_tab_op combo g op st)"
proof (cases op)
  case (Send new_text stream)
  then show ?thesis
    using settled_send[of "st\<lparr>message_input := new_text\<rparr>" stream g combo] assms by simp
next
  case (Edit mw dialog stream)
  have none: "chat_worker st = None" using assms(1) by (simp add: settled_def)
  show ?thesis
  proof (cases "\<exists>t. dialog = Some t \<and> strip t \<noteq> []")
    case True
    then obtain t where t: "dialog = Some t" "strip t \<noteq> []" by blast
    then show ?thesis
      using Edit assms settled_update_last_message[of st stream mw g t combo] none
      by (simp add: handle_edit_request_def)
  next
    case False
    then have "handle_edit_request mw dialog combo g st = st"
      using none by (auto simp: handle_edit_request_def split: option.splits)
    then show ?thesis using Edit assms(1) none by (simp add: run_session_no_session)
  qed
next
  case (Resend mw stream)
  then show ?thesis
    using assms settled_update_last_message[of st stream mw g "[]" combo]
    by (simp add: handle_resend_request_def)
qed

lemma settled_fold:
  "settled st \<Longrightarrow> list_all good_op ops \<Longrightarrow> settled (fold (apply_tab_op combo g) ops st)"
  by (induction ops arbitrary: st) (simp_all add: settled_apply_tab_op)

text \<open>
  C7, amended. From the empty tab, after any sequence of sends, edits and resends (of user
  widgets) in which every session that starts runs to the end of its stream without an
  exception and receives some text, the roles of the history alternate, beginning with
  \<open>user\<close>.
\<close>

theorem history_alternation:
  "list_all good_op ops \<Longrightarrow>
   alternating True (history (fold (apply_tab_op combo g) ops init_tab))"
  using settled_fold[OF settled_init_tab, of ops combo g] by (simp add: settled_def)

lemma good_text_chunk: "t \<noteq> [] \<Longrightarrow> good_stream [Yield (text_chunk t f)]"
  by (simp add: good_stream_def deltas_def)

theorem history_alternation_witness:
  "list_all good_op three_ops \<and>
   alternating True (history (fold (apply_tab_op ''gpt'' True) three_ops init_tab))"
proof -
  have g: "list_all good_op three_ops"
    by (simp add: three_ops_def good_text_chunk second_user_widget_def)
  show ?thesis using history_alternation[OF g, of "''gpt''" True] g by simp
qed

lemma run_empty_stream: "run (\<lambda>n. False) mdl [] [] = ([], [Finished ''stop''])"
  by (simp add: run_def initial_loop_state_def truthy_def)

lemma silent_send:
  assumes "chat_worker st = None" "strip t \<noteq> []"
  shows "history (apply_tab_op combo g (Send t []) st) = history st @ [user_message (strip t)]"
    and "chat_worker (apply_tab_op combo g (Send t []) st) = None"
proof -
  let ?s0 = "start_worker combo (strip t) (st\<lparr>message_input := t\<rparr>)"
  have s: "send_message combo g (st\<lparr>message_input := t\<rparr>) = ?s0"
    using assms by (simp add: send_message_nonblank terminate_worker_no_session)
  have c: "chat_worker ?s0 = Some (length (workers st))" "current_ai_message ?s0 = []"
    "ai_message_widget ?s0 = None"
    by (simp_all add: start_worker_def)
  have n: "\<not> finish_raises ?s0"
    using c(3) by (simp add: not_deleted_not_raises reply_widget_deleted_None)
  have r: "apply_tab_op combo g (Send t []) st = handle_chat_finished ''stop'' g ?s0"
    by (simp add: s run_session_def c(1) run_empty_stream deliver_all_def)
  show "history (apply_tab_op combo g (Send t []) st) = history st @ [user_message (strip t)]"
    unfolding r history_handle_chat_finished[OF n] c(2) by simp
  show "chat_worker (apply_tab_op combo g (Send t []) st) = None"
    unfolding r by (rule chat_worker_handle_chat_finished[OF n])
qed

text \<open>
  C7, as stated, fails: a session that ends without text appends no assistant entry, so
  two such sends leave two user entries in a row.
\<close>

theorem history_alternation_counterexample:
  "history (fold (apply_tab_op ''gpt'' True) silent_ops init_tab) =
     [user_message ''a'', user_message ''b''] \<and>
   \<not> alternating True (history (fold (apply_tab_op ''gpt'' True) silent_ops init_tab))"
proof -
  have s: "strip ''a'' = ''a''" "strip ''b'' = ''b''" by (simp_all add: strip_def is_space_def)
  have i: "chat_worker init_tab = None" "history init_tab = []"
    by (simp_all add: init_tab_def history_def)
  have nb: "strip ''a'' \<noteq> []" "strip ''b'' \<noteq> []" by (simp_all add: s)
  have a: "history (apply_tab_op ''gpt'' True (Send ''a'' []) init_tab) = [user_message ''a'']"
    "chat_worker (apply_tab_op ''gpt'' True (Send ''a'' []) init_tab) = None"
    using silent_send[OF i(1) nb(1), of "''gpt''" True] by (simp_all only: s i(2) append_Nil)
  have f: "fold (apply_tab_op ''gpt'' True) silent_ops init_tab =
             apply_tab_op ''gpt'' True (Send ''b'' [])
               (apply_tab_op ''gpt'' True (Send ''a'' []) init_tab)"
    by (simp add: silent_ops_def del: apply_tab_op.simps)
  have h: "history (fold (apply_tab_op ''gpt'' True) silent_ops init_tab) =
     [user_message ''a'', user_message ''b'']"
    unfolding f using silent_send(1)[OF a(2) nb(2), of "''gpt''" True]
    by (simp only: s a(1) append_Cons append_Nil)
  show ?thesis unfolding h by (simp add: user_message_def)
qed

end
